theory Spec2Isabelle
  imports Main "HOL-Library.Monad_Syntax"
begin

section \<open>Sign-In with Ethereum: message model\<close>

text \<open>
  The class \<open>SiweMessage\<close> of \<open>packages/siwe/lib/client.ts\<close>. A field declared with
  \<open>?\<close> is an \<open>option\<close> (\<open>None\<close> is \<open>undefined\<close>); the other fields have the declared
  type. \<open>chainId\<close> is declared a \<open>number\<close> (here: one holding an integer), but the
  constructor tests at run time whether it holds a string, so the field can hold both.
  A \<open>number\<close> holds every integer below \<open>2^53\<close> in absolute value exactly.
\<close>

datatype chain_value = ChainNumber int | ChainString string

record SiweMessage =
  scheme :: "string option"
  domain :: string
  address :: string
  statement :: "string option"
  uri :: string
  version :: string
  chainId :: chain_value
  nonce :: string
  issuedAt :: "string option"
  expirationTime :: "string option"
  notBefore :: "string option"
  requestId :: "string option"
  resources :: "string list option"

text \<open>The members of \<open>SiweErrorType\<close> that \<open>client.ts\<close> names.\<close>

datatype SiweErrorType =
    SCHEME_MISMATCH
  | DOMAIN_MISMATCH
  | NONCE_MISMATCH
  | EXPIRED_MESSAGE
  | NOT_YET_VALID_MESSAGE
  | INVALID_SIGNATURE

text \<open>
  A thrown or reported error: a plain \<open>Error\<close> with its message, or a
  \<open>SiweError(type, expected, received)\<close>.
\<close>

datatype js_error =
    Error string
  | SiweError SiweErrorType "string option" "string option"

text \<open>
  \<open>data: this\<close> stores a reference to the message being verified, not a copy: what a
  reader of the response sees is the message as it is after the call. \<open>This\<close> is that
  reference; \<open>Obj\<close> is a message object supplied from outside (by a fallback).
\<close>

datatype data_ref = This | Obj SiweMessage

record SiweResponse =
  success :: bool
  data :: data_ref
  error :: "js_error option"

section \<open>JavaScript values\<close>

text \<open>Truthiness of an optional string: \<open>undefined\<close> and \<open>''\<close> are falsy.\<close>

definition truthy :: "string option \<Rightarrow> bool" where
  "truthy x = (case x of None \<Rightarrow> False | Some s \<Rightarrow> s \<noteq> [])"

abbreviation LF :: string where
  "LF \<equiv> [CHR 0x0A]"

text \<open>\<open>Array.prototype.join\<close> on an array of strings.\<close>

fun join :: "string \<Rightarrow> string list \<Rightarrow> string" where
  "join sep [] = []"
| "join sep [x] = x"
| "join sep (x # y # ys) = x @ sep @ join sep (y # ys)"

text \<open>An array element that is \<open>undefined\<close> is joined as the empty string.\<close>

definition undefined_as_empty :: "string option \<Rightarrow> string" where
  "undefined_as_empty x = (case x of None \<Rightarrow> [] | Some s \<Rightarrow> s)"

text \<open>
  Conversion of a \<open>number\<close> that holds an integer to a string, as \<open>+\<close> on a string
  does it (\<open>Number::toString\<close>): \<open>-\<close> when negative; below \<open>10^21\<close>, that is with up
  to 21 digits, the decimal digits; from \<open>10^21\<close> on the exponent form, which is the first significant digit, a
  point and the other significant digits when there are any, then \<open>e+\<close> and the decimal
  exponent (\<open>1e+21\<close>, \<open>1.5e+21\<close>). Every integer below \<open>2^53\<close> is a number and is
  printed with all its digits. Beyond \<open>2^53\<close> a number is printed with the fewest
  significant digits that tell it from the numbers next to it; here the significant
  digits are all those of the integer, which is what is printed only for the integers
  below \<open>2^53\<close> and for those beyond with few significant digits, such as \<open>10^21\<close>.
\<close>

definition digit_char :: "nat \<Rightarrow> char" where
  "digit_char d = ''0123456789'' ! (d mod 10)"

fun digits :: "nat \<Rightarrow> string" where
  "digits n = (if n < 10 then [digit_char n] else digits (n div 10) @ [digit_char n])"

declare digits.simps [simp del]

definition exponent_form :: "nat \<Rightarrow> string" where
  "exponent_form n =
     (let ds = digits n;
          significant = rev (dropWhile (\<lambda>c. c = CHR ''0'') (rev ds))
      in take 1 significant
         @ (if 1 < length significant then ''.'' @ drop 1 significant else [])
         @ ''e+'' @ digits (length ds - 1))"

definition natural_to_string :: "nat \<Rightarrow> string" where
  "natural_to_string n = (if length (digits n) \<le> 21 then digits n else exponent_form n)"

definition number_to_string :: "int \<Rightarrow> string" where
  "number_to_string i =
     (if i < 0 then ''-'' @ natural_to_string (nat (- i)) else natural_to_string (nat i))"

text \<open>The string that \<open>'Chain ID: ' + this.chainId\<close> appends.\<close>

definition chain_to_string :: "chain_value \<Rightarrow> string" where
  "chain_to_string c = (case c of ChainNumber n \<Rightarrow> number_to_string n | ChainString s \<Rightarrow> s)"

section \<open>Collaborators outside \<open>client.ts\<close>\<close>

definition alphanumeric :: "char \<Rightarrow> bool" where
  "alphanumeric c =
     (c \<in> set ''abcdefghijklmnopqrstuvwxyzABCDEFGHIJKLMNOPQRSTUVWXYZ0123456789'')"

text \<open>
  Modelled from the spec: \<open>generateNonce\<close> of \<open>./utils\<close> is not among the sources. The
  spec: "if \<open>nonce\<close> absent, generate one (\<ge>8 alphanumeric characters, source of
  randomness not security-critical but must be unpredictable)". The string drawn from
  the random source is the argument; a draw that is not a nonce of that shape is an
  error thrown by the generator (the spec does not give the text of the error).
\<close>

definition generateNonce :: "string \<Rightarrow> js_error + string" where
  "generateNonce drawn =
     (if 8 \<le> length drawn \<and> list_all alphanumeric drawn then Inr drawn
      else Inl (Error ''Error during nonce creation.''))"

text \<open>
  What a call needs from outside the class: the string the random source yields to
  \<open>generateNonce()\<close>, the clock (\<open>new Date().toISOString()\<close> and \<open>new Date().getTime()\<close>),
  \<open>Date\<close> parsing (\<open>None\<close> is an invalid date, whose \<open>getTime()\<close> is \<open>NaN\<close>) and printing,
  the signature adapter \<open>verifyMessage\<close> of \<open>./ethersCompat\<close> (\<open>None\<close>: it throws; its
  first argument is \<open>None\<close> when the message to verify is \<open>undefined\<close>), and the
  contract-wallet adapter \<open>checkContractWalletSignature\<close> of \<open>./utils\<close>, given by what
  its promise settles with (\<open>Inl\<close>: rejected with an error).
\<close>

record 'p env =
  drawn :: string
  nowISO :: string
  nowTime :: int
  parseDate :: "string \<Rightarrow> int option"
  toISOString :: "int \<Rightarrow> string"
  verifyMessage :: "string option \<Rightarrow> string \<Rightarrow> string option"
  checkContractWalletSignature :: "SiweMessage \<Rightarrow> string \<Rightarrow> 'p option \<Rightarrow> js_error + bool"

section \<open>The serializer\<close>

text \<open>
  \<open>toMessage()\<close>. It assigns \<open>this.nonce\<close> and \<open>this.issuedAt\<close>, so it returns the
  updated message with the string; it throws when \<open>generateNonce()\<close> does.
\<close>

definition toMessage :: "'p env \<Rightarrow> SiweMessage \<Rightarrow> js_error + (SiweMessage \<times> string)" where
  "toMessage env this0 =
     (let headerPrefix =
            (if truthy (scheme this0)
             then undefined_as_empty (scheme this0) @ ''://'' @ domain this0
             else domain this0);
          header = headerPrefix @ '' wants you to sign in with your Ethereum account:'';
          uriField = ''URI: '' @ uri this0;
          prefix = join LF [header, address this0];
          versionField = ''Version: '' @ version this0
      in case (if nonce this0 = [] then generateNonce (drawn env) else Inr (nonce this0)) of
           Inl e \<Rightarrow> Inl e
         | Inr n \<Rightarrow>
            (let this1 = this0\<lparr>nonce := n\<rparr>;
                 chainField =
                   (let c = ''Chain ID: '' @ chain_to_string (chainId this1)
                    in if c \<noteq> [] then c else ''1'');
                 nonceField = ''Nonce: '' @ nonce this1;
                 suffixArray0 = [uriField, versionField, chainField, nonceField];
                 issued =
                   (if truthy (issuedAt this1) then undefined_as_empty (issuedAt this1)
                    else nowISO env);
                 this2 = this1\<lparr>issuedAt := Some issued\<rparr>;
                 suffixArray1 = suffixArray0 @ [''Issued At: '' @ issued];
                 suffixArray2 =
                   (if truthy (expirationTime this2)
                    then suffixArray1 @
                      [''Expiration Time: '' @ undefined_as_empty (expirationTime this2)]
                    else suffixArray1);
                 suffixArray3 =
                   (if truthy (notBefore this2)
                    then suffixArray2 @ [''Not Before: '' @ undefined_as_empty (notBefore this2)]
                    else suffixArray2);
                 suffixArray4 =
                   (if truthy (requestId this2)
                    then suffixArray3 @ [''Request ID: '' @ undefined_as_empty (requestId this2)]
                    else suffixArray3);
                 suffixArray5 =
                   (case resources this2 of
                      None \<Rightarrow> suffixArray4
                    | Some rs \<Rightarrow>
                        suffixArray4 @ [join LF (''Resources:'' # map (\<lambda>x. ''- '' @ x) rs)]);
                 suffix = join LF suffixArray5;
                 prefix1 = join (LF @ LF) [prefix, undefined_as_empty (statement this2)];
                 prefix2 = (if statement this2 \<noteq> None then prefix1 @ LF else prefix1)
             in Inr (this2, join LF [prefix2, suffix])))"

text \<open>\<open>prepareMessage()\<close>: every version takes the same serializer.\<close>

definition prepareMessage :: "'p env \<Rightarrow> SiweMessage \<Rightarrow> js_error + (SiweMessage \<times> string)" where
  "prepareMessage env this0 =
     (if version this0 = ''1'' then toMessage env this0 else toMessage env this0)"

section \<open>Verification\<close>

text \<open>
  \<open>VerifyParams\<close>: \<open>signature\<close> and the optional overrides. \<open>p_otherKeys\<close> are the own
  keys of the object that are none of these five (the type does not exclude them at
  run time, and \<open>verify\<close> checks for them).
\<close>

record VerifyParams =
  p_signature :: string
  p_scheme :: "string option"
  p_domain :: "string option"
  p_nonce :: "string option"
  p_time :: "string option"
  p_otherKeys :: "string list"

text \<open>
  What the promise returned by a caller-supplied fallback settles with; \<open>None\<close> is a
  falsy value in place of a response. The promises of the collaborators are taken to
  settle: \<open>verify\<close> waits for both with \<open>Promise.all\<close>, and the model describes the
  call once they have settled.
\<close>

datatype fallback_outcome =
    FbResolved "SiweResponse option"
  | FbRejected "SiweResponse option"

text \<open>
  \<open>VerifyOpts\<close>. The fallback is called as
  \<open>verificationFallback(params, opts, this, EIP1271Promise)\<close>; the model hands it the
  parameters, the other fields of \<open>opts\<close>, the message, and the response that
  \<open>EIP1271Promise\<close> resolves with.
\<close>

record 'p VerifyOptsFields =
  suppressExceptions :: "bool option"
  provider :: "'p option"
  o_otherKeys :: "string list"

record 'p VerifyOpts = "'p VerifyOptsFields" +
  verificationFallback ::
    "(VerifyParams \<Rightarrow> 'p VerifyOptsFields \<Rightarrow> SiweMessage \<Rightarrow> SiweResponse
       \<Rightarrow> fallback_outcome) option"

text \<open>
  Modelled from the spec: \<open>checkInvalidKeys\<close> of \<open>./utils\<close> and the key lists
  \<open>VerifyParamsKeys\<close>, \<open>VerifyOptsKeys\<close> of \<open>./types\<close> are not among the sources. The
  spec: "given a record and an enumerated set of recognized key names, returns the set
  of keys present in the record but absent from the enumeration"; the recognized keys
  are those of the verification parameters and options.
\<close>

definition checkInvalidKeys :: "string list \<Rightarrow> string list \<Rightarrow> string list" where
  "checkInvalidKeys obj_keys keys = filter (\<lambda>k. k \<notin> set keys) obj_keys"

definition VerifyParamsKeys :: "string list" where
  "VerifyParamsKeys = [''signature'', ''scheme'', ''domain'', ''nonce'', ''time'']"

definition VerifyOptsKeys :: "string list" where
  "VerifyOptsKeys = [''provider'', ''suppressExceptions'', ''verificationFallback'']"

definition key_if :: "bool \<Rightarrow> string \<Rightarrow> string list" where
  "key_if present k = (if present then [k] else [])"

definition params_keys :: "VerifyParams \<Rightarrow> string list" where
  "params_keys params =
     [''signature''] @ key_if (p_scheme params \<noteq> None) ''scheme''
       @ key_if (p_domain params \<noteq> None) ''domain''
       @ key_if (p_nonce params \<noteq> None) ''nonce''
       @ key_if (p_time params \<noteq> None) ''time''
       @ p_otherKeys params"

definition opts_keys :: "'p VerifyOpts \<Rightarrow> string list" where
  "opts_keys opts =
     key_if (suppressExceptions opts \<noteq> None) ''suppressExceptions''
       @ key_if (provider opts \<noteq> None) ''provider''
       @ key_if (verificationFallback opts \<noteq> None) ''verificationFallback''
       @ o_otherKeys opts"

subsection \<open>The promise and what the executor does to it\<close>

datatype settlement = Resolved SiweResponse | RejectedWith SiweResponse

text \<open>
  What the executor does that can be seen from outside, in order: calls of \<open>fail\<close> and
  of \<open>resolve\<close>, and calls of the collaborators.
\<close>

datatype event =
    FailCalled SiweResponse
  | ResolveCalled SiweResponse
  | VerifyMessageCalled "string option" string
  | ConsoleErrorCalled
  | CheckContractWalletSignatureCalled string
  | VerificationFallbackCalled

text \<open>
  The state of one call of \<open>verify\<close>: the message (\<open>this\<close>), the promise (\<open>None\<close> while
  pending) and the events so far.
\<close>

record vstate =
  self :: SiweMessage
  settled :: "settlement option"
  trace :: "event list"

text \<open>A promise settles once: \<open>resolve\<close> and \<open>reject\<close> on a settled promise do nothing.\<close>

definition settle :: "settlement \<Rightarrow> vstate \<Rightarrow> vstate" where
  "settle s st = (case settled st of None \<Rightarrow> st\<lparr>settled := Some s\<rparr> | Some _ \<Rightarrow> st)"

definition log_event :: "event \<Rightarrow> vstate \<Rightarrow> vstate" where
  "log_event e st = st\<lparr>trace := trace st @ [e]\<rparr>"

definition resolve :: "SiweResponse \<Rightarrow> vstate \<Rightarrow> vstate" where
  "resolve result st = settle (Resolved result) (log_event (ResolveCalled result) st)"

text \<open>The local function \<open>fail\<close> of \<open>verify\<close>.\<close>

definition fail :: "'p VerifyOpts \<Rightarrow> SiweResponse \<Rightarrow> vstate \<Rightarrow> vstate" where
  "fail opts result st =
     (if suppressExceptions opts = Some True
      then settle (Resolved result) (log_event (FailCalled result) st)
      else settle (RejectedWith result) (log_event (FailCalled result) st))"

definition failure :: "js_error \<Rightarrow> SiweResponse" where
  "failure e = \<lparr>success = False, data = This, error = Some e\<rparr>"

subsection \<open>The stages of \<open>verify\<close>, in the order of the executor's body\<close>

definition check_params_keys :: "VerifyParams \<Rightarrow> 'p VerifyOpts \<Rightarrow> vstate \<Rightarrow> vstate" where
  "check_params_keys params opts st =
     (let invalidParams = checkInvalidKeys (params_keys params) VerifyParamsKeys
      in if length invalidParams > 0
         then fail opts
           (failure (Error (join '', '' invalidParams
              @ '' is/are not valid key(s) for VerifyParams.''))) st
         else st)"

definition check_opts_keys :: "'p VerifyOpts \<Rightarrow> vstate \<Rightarrow> vstate" where
  "check_opts_keys opts st =
     (let invalidOpts = checkInvalidKeys (opts_keys opts) VerifyOptsKeys
      in if length invalidOpts > 0
         then fail opts
           (failure (Error (join '', '' invalidOpts
              @ '' is/are not valid key(s) for VerifyOpts.''))) st
         else st)"

definition check_scheme :: "VerifyParams \<Rightarrow> 'p VerifyOpts \<Rightarrow> vstate \<Rightarrow> vstate" where
  "check_scheme params opts st =
     (if truthy (p_scheme params) \<and> p_scheme params \<noteq> scheme (self st)
      then fail opts (failure (SiweError SCHEME_MISMATCH (p_scheme params) (scheme (self st)))) st
      else st)"

definition check_domain :: "VerifyParams \<Rightarrow> 'p VerifyOpts \<Rightarrow> vstate \<Rightarrow> vstate" where
  "check_domain params opts st =
     (if truthy (p_domain params) \<and> p_domain params \<noteq> Some (domain (self st))
      then fail opts
        (failure (SiweError DOMAIN_MISMATCH (p_domain params) (Some (domain (self st))))) st
      else st)"

definition check_nonce :: "VerifyParams \<Rightarrow> 'p VerifyOpts \<Rightarrow> vstate \<Rightarrow> vstate" where
  "check_nonce params opts st =
     (if truthy (p_nonce params) \<and> p_nonce params \<noteq> Some (nonce (self st))
      then fail opts
        (failure (SiweError NONCE_MISMATCH (p_nonce params) (Some (nonce (self st))))) st
      else st)"

text \<open>\<open>new Date(time || new Date())\<close>, as its \<open>getTime()\<close>.\<close>

definition checkTime :: "'p env \<Rightarrow> VerifyParams \<Rightarrow> int option" where
  "checkTime env params =
     (if truthy (p_time params) then parseDate env (undefined_as_empty (p_time params))
      else Some (nowTime env))"

text \<open>\<open>>=\<close> and \<open><\<close> on \<open>getTime()\<close> values: a comparison with \<open>NaN\<close> is false.\<close>

definition time_ge :: "int option \<Rightarrow> int option \<Rightarrow> bool" where
  "time_ge a b = (case (a, b) of (Some x, Some y) \<Rightarrow> x \<ge> y | _ \<Rightarrow> False)"

definition time_lt :: "int option \<Rightarrow> int option \<Rightarrow> bool" where
  "time_lt a b = (case (a, b) of (Some x, Some y) \<Rightarrow> x < y | _ \<Rightarrow> False)"

definition iso :: "'p env \<Rightarrow> int option \<Rightarrow> string" where
  "iso env t = (case t of None \<Rightarrow> [] | Some x \<Rightarrow> toISOString env x)"

definition check_expiration :: "'p env \<Rightarrow> VerifyParams \<Rightarrow> 'p VerifyOpts \<Rightarrow> vstate \<Rightarrow> vstate" where
  "check_expiration env params opts st =
     (if truthy (expirationTime (self st))
      then
        (let expirationDate = parseDate env (undefined_as_empty (expirationTime (self st)))
         in if time_ge (checkTime env params) expirationDate
            then fail opts
              (failure (SiweError EXPIRED_MESSAGE
                 (Some (iso env (checkTime env params) @ '' < '' @ iso env expirationDate))
                 (Some (iso env (checkTime env params) @ '' >= '' @ iso env expirationDate)))) st
            else st)
      else st)"

definition check_notBefore :: "'p env \<Rightarrow> VerifyParams \<Rightarrow> 'p VerifyOpts \<Rightarrow> vstate \<Rightarrow> vstate" where
  "check_notBefore env params opts st =
     (if truthy (notBefore (self st))
      then
        (let notBeforeDate = parseDate env (undefined_as_empty (notBefore (self st)))
         in if time_lt (checkTime env params) notBeforeDate
            then fail opts
              (failure (SiweError NOT_YET_VALID_MESSAGE
                 (Some (iso env (checkTime env params) @ '' >= '' @ iso env notBeforeDate))
                 (Some (iso env (checkTime env params) @ '' < '' @ iso env notBeforeDate)))) st
            else st)
      else st)"

text \<open>
  \<open>try { EIP4361Message = this.prepareMessage() } catch (e) { fail(...) }\<close>: the
  message string stays \<open>undefined\<close> when the serializer throws.
\<close>

definition serialize_stage ::
  "'p env \<Rightarrow> 'p VerifyOpts \<Rightarrow> vstate \<Rightarrow> vstate \<times> string option" where
  "serialize_stage env opts st =
     (case prepareMessage env (self st) of
        Inr (this', message) \<Rightarrow> (st\<lparr>self := this'\<rparr>, Some message)
      | Inl e \<Rightarrow> (fail opts (failure e) st, None))"

text \<open>
  \<open>try { addr = verifyMessage(EIP4361Message, signature) } catch (e) { console.error(e) }\<close>.
\<close>

definition recover_stage ::
  "'p env \<Rightarrow> VerifyParams \<Rightarrow> string option \<Rightarrow> vstate \<Rightarrow> vstate \<times> string option" where
  "recover_stage env params EIP4361Message st =
     (let st1 = log_event (VerifyMessageCalled EIP4361Message (p_signature params)) st
      in case verifyMessage env EIP4361Message (p_signature params) of
           Some addr \<Rightarrow> (st1, Some addr)
         | None \<Rightarrow> (log_event ConsoleErrorCalled st1, None))"

text \<open>The response \<open>EIP1271Promise\<close> resolves with.\<close>

definition EIP1271Response :: "SiweMessage \<Rightarrow> string option \<Rightarrow> js_error + bool \<Rightarrow> SiweResponse" where
  "EIP1271Response this addr outcome =
     (case outcome of
        Inr isValid \<Rightarrow>
          (if \<not> isValid
           then failure (SiweError INVALID_SIGNATURE addr
                  (Some (''Resolved address to be '' @ address this)))
           else \<lparr>success = True, data = This, error = None\<rparr>)
      | Inl e \<Rightarrow> failure e)"

text \<open>
  The value of \<open>opts?.verificationFallback?.(...)?.then(res => res)?.catch(res => res)\<close>
  once settled: \<open>undefined\<close> without a fallback, else what the fallback's promise
  resolved or rejected with.
\<close>

definition fallbackResponse ::
  "VerifyParams \<Rightarrow> 'p VerifyOpts \<Rightarrow> SiweMessage \<Rightarrow> SiweResponse \<Rightarrow> SiweResponse option" where
  "fallbackResponse params opts this eip1271 =
     (case verificationFallback opts of
        None \<Rightarrow> None
      | Some f \<Rightarrow>
          (case f params (VerifyOptsFields.truncate opts) this eip1271 of
             FbResolved res \<Rightarrow> res
           | FbRejected res \<Rightarrow> res))"

definition match_stage ::
  "'p env \<Rightarrow> VerifyParams \<Rightarrow> 'p VerifyOpts \<Rightarrow> string option \<Rightarrow> vstate \<Rightarrow> vstate" where
  "match_stage env params opts addr st =
     (if addr = Some (address (self st))
      then resolve \<lparr>success = True, data = This, error = None\<rparr> st
      else
        (let st1 = log_event (CheckContractWalletSignatureCalled (p_signature params)) st;
             eip1271 = EIP1271Response (self st) addr
               (checkContractWalletSignature env (self st) (p_signature params) (provider opts));
             st2 = (if verificationFallback opts \<noteq> None
                    then log_event VerificationFallbackCalled st1 else st1)
         in case fallbackResponse params opts (self st) eip1271 of
              Some fb \<Rightarrow> (if success fb then resolve fb st2 else fail opts fb st2)
            | None \<Rightarrow> (if success eip1271 then resolve eip1271 st2 else fail opts eip1271 st2)))"

text \<open>The state when the binding and temporal checks and the serialization are done.\<close>

definition checks_stage ::
  "'p env \<Rightarrow> SiweMessage \<Rightarrow> VerifyParams \<Rightarrow> 'p VerifyOpts \<Rightarrow> vstate \<times> string option" where
  "checks_stage env this0 params opts =
     (let st0 = \<lparr>self = this0, settled = None, trace = []\<rparr>;
          st1 = check_params_keys params opts st0;
          st2 = check_opts_keys opts st1;
          st3 = check_scheme params opts st2;
          st4 = check_domain params opts st3;
          st5 = check_nonce params opts st4;
          st6 = check_expiration env params opts st5;
          st7 = check_notBefore env params opts st6
      in serialize_stage env opts st7)"

text \<open>
  \<open>verify(params, opts)\<close>: the final state of the call. No stage returns from the
  executor after calling \<open>fail\<close>, so every stage runs.
\<close>

definition verify :: "'p env \<Rightarrow> SiweMessage \<Rightarrow> VerifyParams \<Rightarrow> 'p VerifyOpts \<Rightarrow> vstate" where
  "verify env this0 params opts =
     (let (st8, EIP4361Message) = checks_stage env this0 params opts;
          (st9, addr) = recover_stage env params EIP4361Message st8
      in match_stage env params opts addr st9)"

section \<open>The parser\<close>

text \<open>
  Modelled from the spec: \<open>ParsedMessage\<close> and \<open>parseIntegerNumber\<close> of
  \<open>@spruceid/siwe-parser\<close> are not among the sources. The spec describes the parser as
  "consumed as a black box that either returns a populated record or fails", whose
  input "must exactly match the serializer's output format to parse successfully (see
  \<section>4.2 line order)"; of the fields it says that the nonce has "\<ge>8 alphanumeric
  characters", that \<open>chainId\<close> is an integer, "numeric, may be parsed from a numeric
  string", and that a statement "must not contain a newline". The parser below reads
  the lines of that format in that order and checks the nonce and the chain ID; it
  accepts any text without a newline as a domain, an address, a URI, a version, a date
  or a request ID. The spec does not give the texts of the errors thrown.
\<close>

record ParsedMessage =
  pm_scheme :: "string option"
  pm_domain :: string
  pm_address :: string
  pm_statement :: "string option"
  pm_uri :: string
  pm_version :: string
  pm_chainId :: int
  pm_nonce :: string
  pm_issuedAt :: string
  pm_expirationTime :: "string option"
  pm_notBefore :: "string option"
  pm_requestId :: "string option"
  pm_resources :: "string list option"

fun split_lines :: "string \<Rightarrow> string list" where
  "split_lines [] = [[]]"
| "split_lines (c # cs) =
     (if c = CHR 0x0A then [] # split_lines cs
      else (case split_lines cs of [] \<Rightarrow> [[c]] | l # ls \<Rightarrow> (c # l) # ls))"

fun strip_prefix :: "string \<Rightarrow> string \<Rightarrow> string option" where
  "strip_prefix [] s = Some s"
| "strip_prefix (p # ps) [] = None"
| "strip_prefix (p # ps) (c # cs) = (if p = c then strip_prefix ps cs else None)"

definition strip_suffix :: "string \<Rightarrow> string \<Rightarrow> string option" where
  "strip_suffix suffix s = map_option rev (strip_prefix (rev suffix) (rev s))"

text \<open>The text before and after the first \<open>://\<close>.\<close>

fun split_scheme :: "string \<Rightarrow> (string \<times> string) option" where
  "split_scheme [] = None"
| "split_scheme (c # cs) =
     (case strip_prefix ''://'' (c # cs) of
        Some d \<Rightarrow> Some ([], d)
      | None \<Rightarrow> (case split_scheme cs of None \<Rightarrow> None | Some (s, d) \<Rightarrow> Some (c # s, d)))"

definition digit_value :: "char \<Rightarrow> nat option" where
  "digit_value c = map_of (zip ''0123456789'' [0, 1, 2, 3, 4, 5, 6, 7, 8, 9]) c"

fun parse_digits :: "string \<Rightarrow> nat \<Rightarrow> nat option" where
  "parse_digits [] acc = Some acc"
| "parse_digits (c # cs) acc =
     (case digit_value c of None \<Rightarrow> None | Some d \<Rightarrow> parse_digits cs (10 * acc + d))"

definition parse_nat :: "string \<Rightarrow> nat option" where
  "parse_nat s = (if s = [] then None else parse_digits s 0)"

definition parseIntegerNumber :: "string \<Rightarrow> js_error + int" where
  "parseIntegerNumber number =
     (case parse_nat number of
        None \<Rightarrow> Inl (Error ''Invalid number.'')
      | Some n \<Rightarrow> Inr (int n))"

definition valid_nonce :: "string \<Rightarrow> bool" where
  "valid_nonce n = (8 \<le> length n \<and> list_all alphanumeric n)"

definition parse_header :: "string \<Rightarrow> (string option \<times> string) option" where
  "parse_header header =
     (case strip_suffix '' wants you to sign in with your Ethereum account:'' header of
        None \<Rightarrow> None
      | Some headerPrefix \<Rightarrow>
          (case split_scheme headerPrefix of
             None \<Rightarrow> Some (None, headerPrefix)
           | Some (s, d) \<Rightarrow> Some (Some s, d)))"

definition next_line :: "string list \<Rightarrow> (string \<times> string list) option" where
  "next_line ls = (case ls of [] \<Rightarrow> None | l # rest \<Rightarrow> Some (l, rest))"

definition take_field :: "string \<Rightarrow> string list \<Rightarrow> (string \<times> string list) option" where
  "take_field tag ls =
     (case ls of
        [] \<Rightarrow> None
      | l # rest \<Rightarrow> (case strip_prefix tag l of None \<Rightarrow> None | Some v \<Rightarrow> Some (v, rest)))"

definition parse_optional :: "string \<Rightarrow> string list \<Rightarrow> string option \<times> string list" where
  "parse_optional tag ls =
     (case take_field tag ls of None \<Rightarrow> (None, ls) | Some (v, rest) \<Rightarrow> (Some v, rest))"

text \<open>
  After the address and a blank line: a blank line and the \<open>URI:\<close> line when there is
  no statement, else the statement and a blank line.
\<close>

definition parse_statement :: "string list \<Rightarrow> (string option \<times> string list) option" where
  "parse_statement ls =
     (case ls of
        x # y # rest \<Rightarrow>
          (if x = [] \<and> strip_prefix ''URI: '' y \<noteq> None then Some (None, y # rest)
           else if y = [] then Some (Some x, rest)
           else None)
      | _ \<Rightarrow> None)"

definition parse_resources :: "string list \<Rightarrow> string list option option" where
  "parse_resources ls =
     (case ls of
        [] \<Rightarrow> Some None
      | l # rest \<Rightarrow>
          (if l = ''Resources:'' then map_option Some (those (map (strip_prefix ''- '') rest))
           else None))"

definition parse_message_lines :: "string list \<Rightarrow> ParsedMessage option" where
  "parse_message_lines ls0 =
     do {
       (header, ls1) \<leftarrow> next_line ls0;
       (addr, ls2) \<leftarrow> next_line ls1;
       (blank, ls3) \<leftarrow> next_line ls2;
       (sch, dom) \<leftarrow> (if blank = [] then parse_header header else None);
       (stmt, ls4) \<leftarrow> parse_statement ls3;
       (u, ls5) \<leftarrow> take_field ''URI: '' ls4;
       (v, ls6) \<leftarrow> take_field ''Version: '' ls5;
       (c, ls7) \<leftarrow> take_field ''Chain ID: '' ls6;
       chain \<leftarrow> parse_nat c;
       (n, ls8) \<leftarrow> take_field ''Nonce: '' ls7;
       (issued, ls9) \<leftarrow> (if valid_nonce n then take_field ''Issued At: '' ls8 else None);
       (expiry, ls10) \<leftarrow> Some (parse_optional ''Expiration Time: '' ls9);
       (nb, ls11) \<leftarrow> Some (parse_optional ''Not Before: '' ls10);
       (rid, ls12) \<leftarrow> Some (parse_optional ''Request ID: '' ls11);
       res \<leftarrow> parse_resources ls12;
       Some \<lparr>pm_scheme = sch, pm_domain = dom, pm_address = addr, pm_statement = stmt,
             pm_uri = u, pm_version = v, pm_chainId = int chain, pm_nonce = n,
             pm_issuedAt = issued, pm_expirationTime = expiry, pm_notBefore = nb,
             pm_requestId = rid, pm_resources = res\<rparr>
     }"

definition ParsedMessage :: "string \<Rightarrow> js_error + ParsedMessage" where
  "ParsedMessage msg =
     (case parse_message_lines (split_lines msg) of
        None \<Rightarrow> Inl (Error ''Invalid message'')
      | Some parsedMessage \<Rightarrow> Inr parsedMessage)"

section \<open>The constructor\<close>

text \<open>
  The object a message is constructed from, a \<open>Partial<SiweMessage>\<close>, with the fields
  the class declares without \<open>?\<close> supplied; \<open>nonce\<close> may be left out, and \<open>chainId\<close>
  may be a number or a string.
\<close>

record SiweMessageFields =
  f_scheme :: "string option"
  f_domain :: string
  f_address :: string
  f_statement :: "string option"
  f_uri :: string
  f_version :: string
  f_chainId :: chain_value
  f_nonce :: "string option"
  f_issuedAt :: "string option"
  f_expirationTime :: "string option"
  f_notBefore :: "string option"
  f_requestId :: "string option"
  f_resources :: "string list option"

text \<open>The branch \<open>typeof param === 'string'\<close>.\<close>

definition SiweMessage_of_string :: "string \<Rightarrow> js_error + SiweMessage" where
  "SiweMessage_of_string param =
     (case ParsedMessage param of
        Inl e \<Rightarrow> Inl e
      | Inr parsedMessage \<Rightarrow>
          Inr \<lparr>scheme = pm_scheme parsedMessage,
               domain = pm_domain parsedMessage,
               address = pm_address parsedMessage,
               statement = pm_statement parsedMessage,
               uri = pm_uri parsedMessage,
               version = pm_version parsedMessage,
               chainId = ChainNumber (pm_chainId parsedMessage),
               nonce = pm_nonce parsedMessage,
               issuedAt = Some (pm_issuedAt parsedMessage),
               expirationTime = pm_expirationTime parsedMessage,
               notBefore = pm_notBefore parsedMessage,
               requestId = pm_requestId parsedMessage,
               resources = pm_resources parsedMessage\<rparr>)"

text \<open>
  The other branch. A \<open>nonce\<close> that is \<open>undefined\<close> is held as the empty string until
  \<open>this.nonce || generateNonce()\<close> replaces it: both are falsy.
\<close>

definition SiweMessage_of_fields :: "'p env \<Rightarrow> SiweMessageFields \<Rightarrow> js_error + SiweMessage" where
  "SiweMessage_of_fields env param =
     (let this0 =
            \<lparr>scheme = f_scheme param, domain = f_domain param, address = f_address param,
             statement = f_statement param, uri = f_uri param, version = f_version param,
             chainId = f_chainId param, nonce = undefined_as_empty (f_nonce param),
             issuedAt = f_issuedAt param, expirationTime = f_expirationTime param,
             notBefore = f_notBefore param, requestId = f_requestId param,
             resources = f_resources param\<rparr>
      in case (case chainId this0 of
                 ChainString s \<Rightarrow>
                   (case parseIntegerNumber s of Inl e \<Rightarrow> Inl e | Inr n \<Rightarrow> Inr (ChainNumber n))
               | ChainNumber n \<Rightarrow> Inr (ChainNumber n)) of
           Inl e \<Rightarrow> Inl e
         | Inr chain \<Rightarrow>
            (let this1 = this0\<lparr>chainId := chain\<rparr>
             in case (if nonce this1 \<noteq> [] then Inr (nonce this1)
                      else generateNonce (drawn env)) of
                  Inl e \<Rightarrow> Inl e
                | Inr n \<Rightarrow>
                   (let this2 = this1\<lparr>nonce := n\<rparr>
                    in case prepareMessage env this2 of
                         Inl e \<Rightarrow> Inl e
                       | Inr (this3, message) \<Rightarrow>
                           (case ParsedMessage message of
                              Inl e \<Rightarrow> Inl e
                            | Inr parsedMessage \<Rightarrow> Inr this3))))"

definition SiweMessage_constructor ::
  "'p env \<Rightarrow> string + SiweMessageFields \<Rightarrow> js_error + SiweMessage" where
  "SiweMessage_constructor env param =
     (case param of
        Inl message \<Rightarrow> SiweMessage_of_string message
      | Inr object \<Rightarrow> SiweMessage_of_fields env object)"

section \<open>Notions used to state the properties\<close>

text \<open>What \<open>fail\<close> settles a pending promise with.\<close>

definition delivered :: "'p VerifyOpts \<Rightarrow> SiweResponse \<Rightarrow> settlement" where
  "delivered opts result =
     (if suppressExceptions opts = Some True then Resolved result else RejectedWith result)"

definition first_wins :: "settlement option \<Rightarrow> settlement \<Rightarrow> settlement option" where
  "first_wins old new = (case old of None \<Rightarrow> Some new | Some s \<Rightarrow> Some s)"

text \<open>
  The checks of \<open>verify\<close> that come before the expiry check do not call \<open>fail\<close>: the
  keys of the parameters and of the options are recognized and no scheme, domain or
  nonce override mismatches.
\<close>

definition binding_checks_pass :: "SiweMessage \<Rightarrow> VerifyParams \<Rightarrow> 'p VerifyOpts \<Rightarrow> bool" where
  "binding_checks_pass this0 params opts =
     (checkInvalidKeys (params_keys params) VerifyParamsKeys = [] \<and>
      checkInvalidKeys (opts_keys opts) VerifyOptsKeys = [] \<and>
      \<not> (truthy (p_scheme params) \<and> p_scheme params \<noteq> scheme this0) \<and>
      \<not> (truthy (p_domain params) \<and> p_domain params \<noteq> Some (domain this0)) \<and>
      \<not> (truthy (p_nonce params) \<and> p_nonce params \<noteq> Some (nonce this0)))"

text \<open>
  No check of \<open>verify\<close> before the signature recovery calls \<open>fail\<close>: moreover the
  message is neither expired nor not yet valid at the check time, and the serializer
  does not throw.
\<close>

definition no_stage_fails ::
  "'p env \<Rightarrow> SiweMessage \<Rightarrow> VerifyParams \<Rightarrow> 'p VerifyOpts \<Rightarrow> bool" where
  "no_stage_fails env this0 params opts =
     (binding_checks_pass this0 params opts \<and>
      \<not> (truthy (expirationTime this0) \<and>
         time_ge (checkTime env params)
           (parseDate env (undefined_as_empty (expirationTime this0)))) \<and>
      \<not> (truthy (notBefore this0) \<and>
         time_lt (checkTime env params)
           (parseDate env (undefined_as_empty (notBefore this0)))) \<and>
      \<not> isl (prepareMessage env this0))"

text \<open>
  The value of the variable \<open>EIP4361Message\<close> when the signature is recovered (\<open>None\<close>
  is \<open>undefined\<close>: the serializer threw), the message object after that serialization,
  the address recovered, and the response of the contract-wallet proof.
\<close>

definition EIP4361Message :: "'p env \<Rightarrow> SiweMessage \<Rightarrow> string option" where
  "EIP4361Message env this0 =
     (case prepareMessage env this0 of Inr (this1, message) \<Rightarrow> Some message | Inl e \<Rightarrow> None)"

definition message_after :: "'p env \<Rightarrow> SiweMessage \<Rightarrow> SiweMessage" where
  "message_after env this0 =
     (case prepareMessage env this0 of Inr (this1, message) \<Rightarrow> this1 | Inl e \<Rightarrow> this0)"

definition recovered :: "'p env \<Rightarrow> SiweMessage \<Rightarrow> VerifyParams \<Rightarrow> string option" where
  "recovered env this0 params =
     verifyMessage env (EIP4361Message env this0) (p_signature params)"

definition contract_wallet_response ::
  "'p env \<Rightarrow> SiweMessage \<Rightarrow> VerifyParams \<Rightarrow> 'p VerifyOpts \<Rightarrow> SiweResponse" where
  "contract_wallet_response env this0 params opts =
     EIP1271Response (message_after env this0) (recovered env this0 params)
       (checkContractWalletSignature env (message_after env this0) (p_signature params)
          (provider opts))"

text \<open>
  The verification fallback of a call, if one is supplied, settles with the same
  response when the options it is handed hold \<open>suppressExceptions: a\<close> as when they
  hold \<open>suppressExceptions: b\<close> (\<open>None\<close>: the key is absent). The other arguments are
  those of the call: the parameters, the message after its serialization and the
  promise of the contract-wallet proof.
\<close>

definition same_fallback_response ::
  "'p env \<Rightarrow> SiweMessage \<Rightarrow> VerifyParams \<Rightarrow> 'p VerifyOpts \<Rightarrow> bool option \<Rightarrow> bool option
     \<Rightarrow> bool" where
  "same_fallback_response env this0 params opts a b =
     (fallbackResponse params (opts\<lparr>suppressExceptions := a\<rparr>) (message_after env this0)
        (contract_wallet_response env this0 params opts)
      = fallbackResponse params (opts\<lparr>suppressExceptions := b\<rparr>) (message_after env this0)
        (contract_wallet_response env this0 params opts))"

text \<open>The first call of \<open>fail\<close> or \<open>resolve\<close> among the events of a call.\<close>

fun first_settling :: "event list \<Rightarrow> event option" where
  "first_settling [] = None"
| "first_settling (FailCalled r # es) = Some (FailCalled r)"
| "first_settling (ResolveCalled r # es) = Some (ResolveCalled r)"
| "first_settling (e # es) = first_settling es"

text \<open>What the promise is settled with after the events \<open>es\<close>.\<close>

definition settlement_of :: "'p VerifyOpts \<Rightarrow> event list \<Rightarrow> settlement option" where
  "settlement_of opts es =
     (case first_settling es of
        Some (FailCalled r) \<Rightarrow> Some (delivered opts r)
      | Some (ResolveCalled r) \<Rightarrow> Some (Resolved r)
      | _ \<Rightarrow> None)"

text \<open>A call of \<open>fail\<close> with a response that reports no success.\<close>

fun is_fail_call :: "event \<Rightarrow> bool" where
  "is_fail_call (FailCalled r) = (\<not> success r)"
| "is_fail_call e = False"

text \<open>
  The lines of a serialized message, in order. A scheme prefix, an expiration time, a
  not-before time and a request ID appear when the field holds a non-empty string; the
  statement appears whenever it is set.
\<close>

definition header_line :: "SiweMessage \<Rightarrow> string" where
  "header_line m =
     (case scheme m of None \<Rightarrow> [] | Some s \<Rightarrow> if s = [] then [] else s @ ''://'')
       @ domain m @ '' wants you to sign in with your Ethereum account:''"

definition optional_line :: "string \<Rightarrow> string option \<Rightarrow> string list" where
  "optional_line tag x = (case x of None \<Rightarrow> [] | Some v \<Rightarrow> if v = [] then [] else [tag @ v])"

definition message_lines :: "SiweMessage \<Rightarrow> string list" where
  "message_lines m =
     [header_line m, address m, []]
       @ (case statement m of None \<Rightarrow> [] | Some s \<Rightarrow> [s])
       @ [[]]
       @ [''URI: '' @ uri m, ''Version: '' @ version m,
          ''Chain ID: '' @ chain_to_string (chainId m), ''Nonce: '' @ nonce m,
          ''Issued At: '' @ undefined_as_empty (issuedAt m)]
       @ optional_line ''Expiration Time: '' (expirationTime m)
       @ optional_line ''Not Before: '' (notBefore m)
       @ optional_line ''Request ID: '' (requestId m)
       @ (case resources m of None \<Rightarrow> [] | Some rs \<Rightarrow> ''Resources:'' # map (\<lambda>x. ''- '' @ x) rs)"

text \<open>The message with the defaults that the serializer assigns.\<close>

definition with_defaults :: "'p env \<Rightarrow> SiweMessage \<Rightarrow> SiweMessage" where
  "with_defaults env m =
     m\<lparr>nonce := (if nonce m = [] then drawn env else nonce m),
       issuedAt := Some (if truthy (issuedAt m) then undefined_as_empty (issuedAt m)
                         else nowISO env)\<rparr>"

text \<open>
  Structurally valid field sets. No text field contains a newline; a scheme contains
  no \<open>:\<close> and a domain no \<open>/\<close>; a nonce that is given and not empty has at least 8
  alphanumeric characters, and when none is given the random source yields such a
  nonce; the chain ID is a number that is not negative or a string of decimal digits;
  and the clock's ISO string, used when no issue time is given, has no newline.
\<close>

definition no_newline :: "string \<Rightarrow> bool" where
  "no_newline s = (CHR 0x0A \<notin> set s)"

definition no_newline_opt :: "string option \<Rightarrow> bool" where
  "no_newline_opt x = (case x of None \<Rightarrow> True | Some s \<Rightarrow> no_newline s)"

definition structurally_valid :: "'p env \<Rightarrow> SiweMessageFields \<Rightarrow> bool" where
  "structurally_valid env f =
     (no_newline_opt (f_scheme f) \<and>
      (case f_scheme f of None \<Rightarrow> True | Some s \<Rightarrow> CHR '':'' \<notin> set s) \<and>
      no_newline (f_domain f) \<and> CHR ''/'' \<notin> set (f_domain f) \<and>
      no_newline (f_address f) \<and>
      no_newline_opt (f_statement f) \<and>
      no_newline (f_uri f) \<and>
      no_newline (f_version f) \<and>
      (case f_chainId f of ChainNumber n \<Rightarrow> 0 \<le> n | ChainString s \<Rightarrow> parse_nat s \<noteq> None) \<and>
      valid_nonce (if truthy (f_nonce f) then undefined_as_empty (f_nonce f) else drawn env) \<and>
      no_newline (if truthy (f_issuedAt f) then undefined_as_empty (f_issuedAt f)
                  else nowISO env) \<and>
      no_newline_opt (f_expirationTime f) \<and>
      no_newline_opt (f_notBefore f) \<and>
      no_newline_opt (f_requestId f) \<and>
      (case f_resources f of None \<Rightarrow> True | Some rs \<Rightarrow> list_all no_newline rs))"

text \<open>No optional field that the serializer tests for truthiness is the empty string.\<close>

definition no_empty_optional :: "SiweMessageFields \<Rightarrow> bool" where
  "no_empty_optional f =
     (f_scheme f \<noteq> Some [] \<and> f_expirationTime f \<noteq> Some [] \<and>
      f_notBefore f \<noteq> Some [] \<and> f_requestId f \<noteq> Some [])"

text \<open>
  The chain ID is a number that holds an integer exactly, or a string of digits that
  reads as one: it is below \<open>2^53\<close>.
\<close>

definition safe_chain_id :: "SiweMessageFields \<Rightarrow> bool" where
  "safe_chain_id f =
     (case f_chainId f of
        ChainNumber n \<Rightarrow> n < 2 ^ 53
      | ChainString s \<Rightarrow> (case parse_nat s of None \<Rightarrow> False | Some k \<Rightarrow> int k < 2 ^ 53))"

text \<open>The same three conditions on a message, once constructed.\<close>

definition valid_message :: "SiweMessage \<Rightarrow> bool" where
  "valid_message m =
     (no_newline_opt (scheme m) \<and>
      (case scheme m of None \<Rightarrow> True | Some s \<Rightarrow> CHR '':'' \<notin> set s \<and> s \<noteq> []) \<and>
      no_newline (domain m) \<and> CHR ''/'' \<notin> set (domain m) \<and>
      no_newline (address m) \<and>
      no_newline_opt (statement m) \<and>
      no_newline (uri m) \<and>
      no_newline (version m) \<and>
      (case chainId m of ChainNumber n \<Rightarrow> 0 \<le> n \<and> n < 2 ^ 53 | ChainString s \<Rightarrow> False) \<and>
      valid_nonce (nonce m) \<and>
      issuedAt m \<noteq> None \<and> no_newline_opt (issuedAt m) \<and>
      no_newline_opt (expirationTime m) \<and> expirationTime m \<noteq> Some [] \<and>
      no_newline_opt (notBefore m) \<and> notBefore m \<noteq> Some [] \<and>
      no_newline_opt (requestId m) \<and> requestId m \<noteq> Some [] \<and>
      (case resources m of None \<Rightarrow> True | Some rs \<Rightarrow> list_all no_newline rs))"

text \<open>
  The message that the constructor assembles from fields before it validates it: the
  chain ID converted, the nonce and the issue time resolved.
\<close>

definition assembled :: "'p env \<Rightarrow> SiweMessageFields \<Rightarrow> SiweMessage" where
  "assembled env f =
     \<lparr>scheme = f_scheme f, domain = f_domain f, address = f_address f,
      statement = f_statement f, uri = f_uri f, version = f_version f,
      chainId =
        (case f_chainId f of
           ChainNumber n \<Rightarrow> ChainNumber n
         | ChainString s \<Rightarrow>
             (case parse_nat s of None \<Rightarrow> ChainString s | Some k \<Rightarrow> ChainNumber (int k))),
      nonce = (if truthy (f_nonce f) then undefined_as_empty (f_nonce f) else drawn env),
      issuedAt =
        Some (if truthy (f_issuedAt f) then undefined_as_empty (f_issuedAt f) else nowISO env),
      expirationTime = f_expirationTime f, notBefore = f_notBefore f,
      requestId = f_requestId f, resources = f_resources f\<rparr>"

section \<open>Concrete inputs\<close>

text \<open>
  A message valid from 1 January 2024 until 2 January 2024, a clock at noon of
  1 January, a signature adapter that recovers \<open>0xAbC\<close> from \<open>0xgood\<close> and another
  address from \<open>0xother\<close>, and a contract-wallet adapter that answers "not valid".
\<close>

definition example_message :: SiweMessage where
  "example_message =
     \<lparr>scheme = Some ''https'', domain = ''example.com'', address = ''0xAbC'',
      statement = Some ''Sign in'', uri = ''https://example.com/login'', version = ''1'',
      chainId = ChainNumber 1, nonce = ''abcdefgh'',
      issuedAt = Some ''2024-01-01T00:00:00.000Z'',
      expirationTime = Some ''2024-01-02T00:00:00.000Z'',
      notBefore = Some ''2024-01-01T00:00:00.000Z'',
      requestId = None, resources = None\<rparr>"

definition example_env :: "unit env" where
  "example_env =
     \<lparr>drawn = ''n0nc3n0nc3'', nowISO = ''2024-01-01T12:00:00.000Z'',
      nowTime = 1704110400000,
      parseDate = map_of
        [(''2024-01-01T00:00:00.000Z'', 1704067200000),
         (''2024-01-02T00:00:00.000Z'', 1704153600000),
         (''2024-01-03T00:00:00.000Z'', 1704240000000)],
      toISOString = (\<lambda>t. if t = 1704067200000 then ''2024-01-01T00:00:00.000Z''
                         else if t = 1704153600000 then ''2024-01-02T00:00:00.000Z''
                         else ''2024-01-03T00:00:00.000Z''),
      verifyMessage = (\<lambda>message signature.
         if signature = ''0xgood'' then Some ''0xAbC''
         else if signature = ''0xother'' then Some ''0xDeF'' else None),
      checkContractWalletSignature = (\<lambda>message signature provider. Inr False)\<rparr>"

definition example_params :: VerifyParams where
  "example_params =
     \<lparr>p_signature = ''0xgood'', p_scheme = None, p_domain = None, p_nonce = None,
      p_time = None, p_otherKeys = []\<rparr>"

definition example_opts :: "unit VerifyOpts" where
  "example_opts =
     \<lparr>suppressExceptions = None, provider = None, o_otherKeys = [],
      verificationFallback = None\<rparr>"

definition success_response :: SiweResponse where
  "success_response = \<lparr>success = True, data = This, error = None\<rparr>"

text \<open>A fallback that accepts whatever it is given.\<close>

definition accepting_fallback ::
  "VerifyParams \<Rightarrow> unit VerifyOptsFields \<Rightarrow> SiweMessage \<Rightarrow> SiweResponse \<Rightarrow> fallback_outcome" where
  "accepting_fallback params opts message eip1271 = FbResolved (Some success_response)"

text \<open>The fields of the example message, without a nonce and with the chain ID as a string.\<close>

definition example_fields :: SiweMessageFields where
  "example_fields =
     \<lparr>f_scheme = Some ''https'', f_domain = ''example.com'', f_address = ''0xAbC'',
      f_statement = Some ''Sign in'', f_uri = ''https://example.com/login'',
      f_version = ''1'', f_chainId = ChainString ''1'', f_nonce = None,
      f_issuedAt = Some ''2024-01-01T00:00:00.000Z'',
      f_expirationTime = Some ''2024-01-02T00:00:00.000Z'',
      f_notBefore = Some ''2024-01-01T00:00:00.000Z'',
      f_requestId = None, f_resources = Some [''https://example.com/a'']\<rparr>"

text \<open>
  The example message and fields with an address in the mixed-case checksum form of
  EIP-55, as the parser of the library requires of an address.
\<close>

definition checksummed_message :: SiweMessage where
  "checksummed_message =
     example_message\<lparr>address := ''0x5aAeb6053F3E94C9b9A09f33669435E7Ef1BeAed''\<rparr>"

definition checksummed_fields :: SiweMessageFields where
  "checksummed_fields =
     example_fields\<lparr>f_address := ''0x5aAeb6053F3E94C9b9A09f33669435E7Ef1BeAed''\<rparr>"

text \<open>
  A fallback that refuses whatever it is given, and one whose refusal depends on the
  option \<open>suppressExceptions\<close> of the options that \<open>verify\<close> hands it.
\<close>

definition refusing_fallback ::
  "VerifyParams \<Rightarrow> unit VerifyOptsFields \<Rightarrow> SiweMessage \<Rightarrow> SiweResponse \<Rightarrow> fallback_outcome" where
  "refusing_fallback params opts message eip1271 =
     FbResolved (Some (failure (Error ''refused'')))"

definition option_reading_fallback ::
  "VerifyParams \<Rightarrow> unit VerifyOptsFields \<Rightarrow> SiweMessage \<Rightarrow> SiweResponse \<Rightarrow> fallback_outcome" where
  "option_reading_fallback params opts message eip1271 =
     (if suppressExceptions opts = Some True
      then FbResolved (Some (failure (Error ''refused quietly'')))
      else FbResolved (Some (failure (Error ''refused loudly''))))"

section \<open>How the stages of \<open>verify\<close> act on the promise, the message and the events\<close>

lemma first_wins_simps [simp]:
  "first_wins None new = Some new" "first_wins (Some s) new = Some s"
  "first_wins old new \<noteq> None"
  by (simp_all add: first_wins_def split: option.splits)

lemma first_wins_kept: "old \<noteq> None \<Longrightarrow> first_wins old new = old"
  by (cases old) simp_all

lemma log_event_sel [simp]:
  "settled (log_event e st) = settled st"
  "self (log_event e st) = self st"
  "trace (log_event e st) = trace st @ [e]"
  by (simp_all add: log_event_def)

lemma settle_sel [simp]:
  "settled (settle s st) = first_wins (settled st) s"
  "self (settle s st) = self st"
  "trace (settle s st) = trace st"
  by (simp_all add: settle_def first_wins_def split: option.splits)

lemma fail_sel [simp]:
  "settled (fail opts r st) = first_wins (settled st) (delivered opts r)"
  "self (fail opts r st) = self st"
  "trace (fail opts r st) = trace st @ [FailCalled r]"
  by (simp_all add: fail_def delivered_def)

lemma resolve_sel [simp]:
  "settled (resolve r st) = first_wins (settled st) (Resolved r)"
  "self (resolve r st) = self st"
  "trace (resolve r st) = trace st @ [ResolveCalled r]"
  by (simp_all add: resolve_def)

lemmas check_defs = check_params_keys_def check_opts_keys_def check_scheme_def check_domain_def
  check_nonce_def check_expiration_def check_notBefore_def

lemma self_checks [simp]:
  "self (check_params_keys params opts st) = self st"
  "self (check_opts_keys opts st) = self st"
  "self (check_scheme params opts st) = self st"
  "self (check_domain params opts st) = self st"
  "self (check_nonce params opts st) = self st"
  "self (check_expiration env params opts st) = self st"
  "self (check_notBefore env params opts st) = self st"
  by (simp_all add: check_defs Let_def)

lemma kept_checks:
  "settled st \<noteq> None \<Longrightarrow> settled (check_params_keys params opts st) = settled st"
  "settled st \<noteq> None \<Longrightarrow> settled (check_opts_keys opts st) = settled st"
  "settled st \<noteq> None \<Longrightarrow> settled (check_scheme params opts st) = settled st"
  "settled st \<noteq> None \<Longrightarrow> settled (check_domain params opts st) = settled st"
  "settled st \<noteq> None \<Longrightarrow> settled (check_nonce params opts st) = settled st"
  "settled st \<noteq> None \<Longrightarrow> settled (check_expiration env params opts st) = settled st"
  "settled st \<noteq> None \<Longrightarrow> settled (check_notBefore env params opts st) = settled st"
  by (simp_all add: check_defs Let_def first_wins_kept)

lemma pending_checks:
  "settled (check_params_keys params opts st) = None \<longleftrightarrow>
     settled st = None \<and> checkInvalidKeys (params_keys params) VerifyParamsKeys = []"
  "settled (check_opts_keys opts st) = None \<longleftrightarrow>
     settled st = None \<and> checkInvalidKeys (opts_keys opts) VerifyOptsKeys = []"
  "settled (check_scheme params opts st) = None \<longleftrightarrow>
     settled st = None \<and> \<not> (truthy (p_scheme params) \<and> p_scheme params \<noteq> scheme (self st))"
  "settled (check_domain params opts st) = None \<longleftrightarrow>
     settled st = None \<and>
     \<not> (truthy (p_domain params) \<and> p_domain params \<noteq> Some (domain (self st)))"
  "settled (check_nonce params opts st) = None \<longleftrightarrow>
     settled st = None \<and>
     \<not> (truthy (p_nonce params) \<and> p_nonce params \<noteq> Some (nonce (self st)))"
  "settled (check_expiration env params opts st) = None \<longleftrightarrow>
     settled st = None \<and>
     \<not> (truthy (expirationTime (self st)) \<and>
        time_ge (checkTime env params)
          (parseDate env (undefined_as_empty (expirationTime (self st)))))"
  "settled (check_notBefore env params opts st) = None \<longleftrightarrow>
     settled st = None \<and>
     \<not> (truthy (notBefore (self st)) \<and>
        time_lt (checkTime env params)
          (parseDate env (undefined_as_empty (notBefore (self st)))))"
  by (auto simp add: check_defs Let_def)

lemma kept_serialize:
  "settled st \<noteq> None \<Longrightarrow> settled (fst (serialize_stage env opts st)) = settled st"
  by (simp add: serialize_stage_def first_wins_kept split: sum.splits prod.splits)

lemma pending_serialize:
  "settled (fst (serialize_stage env opts st)) = None \<longleftrightarrow>
     settled st = None \<and> \<not> isl (prepareMessage env (self st))"
  by (auto simp add: serialize_stage_def split: sum.splits prod.splits)

lemma self_serialize [simp]:
  "self (fst (serialize_stage env opts st)) = message_after env (self st)"
  by (simp add: serialize_stage_def message_after_def split: sum.splits prod.splits)

lemma snd_serialize [simp]:
  "snd (serialize_stage env opts st) = EIP4361Message env (self st)"
  by (simp add: serialize_stage_def EIP4361Message_def split: sum.splits prod.splits)

lemma recover_sel [simp]:
  "settled (fst (recover_stage env params msg st)) = settled st"
  "self (fst (recover_stage env params msg st)) = self st"
  "snd (recover_stage env params msg st) = verifyMessage env msg (p_signature params)"
  "trace (fst (recover_stage env params msg st)) =
     trace st @ [VerifyMessageCalled msg (p_signature params)]
       @ (if verifyMessage env msg (p_signature params) = None then [ConsoleErrorCalled] else [])"
  by (simp_all add: recover_stage_def Let_def split: option.splits)

lemma kept_match:
  "settled st \<noteq> None \<Longrightarrow> settled (match_stage env params opts addr st) = settled st"
  by (simp add: match_stage_def Let_def first_wins_kept split: option.splits)

lemma verify_unfold:
  "verify env this0 params opts =
     match_stage env params opts
       (verifyMessage env (snd (checks_stage env this0 params opts)) (p_signature params))
       (fst (recover_stage env params (snd (checks_stage env this0 params opts))
          (fst (checks_stage env this0 params opts))))"
  by (simp add: verify_def split: prod.splits) (metis snd_conv recover_sel(3))

lemma self_checks_stage [simp]:
  "self (fst (checks_stage env this0 params opts)) = message_after env this0"
  by (simp add: checks_stage_def)

lemma snd_checks_stage [simp]:
  "snd (checks_stage env this0 params opts) = EIP4361Message env this0"
  by (simp add: checks_stage_def)

lemma pending_checks_stage:
  "settled (fst (checks_stage env this0 params opts)) = None \<longleftrightarrow>
     no_stage_fails env this0 params opts"
  by (simp add: checks_stage_def pending_serialize pending_checks no_stage_fails_def
      binding_checks_pass_def del: de_Morgan_conj)

lemma kept_verify:
  "settled (fst (checks_stage env this0 params opts)) \<noteq> None \<Longrightarrow>
   settled (verify env this0 params opts) = settled (fst (checks_stage env this0 params opts))"
  by (simp add: verify_unfold kept_match)

lemma trace_checks:
  "trace (check_params_keys params opts st) = trace st @
     (if checkInvalidKeys (params_keys params) VerifyParamsKeys = [] then []
      else [FailCalled (failure (Error (join '', '' (checkInvalidKeys (params_keys params) VerifyParamsKeys)
              @ '' is/are not valid key(s) for VerifyParams.'')))])"
  "trace (check_opts_keys opts st) = trace st @
     (if checkInvalidKeys (opts_keys opts) VerifyOptsKeys = [] then []
      else [FailCalled (failure (Error (join '', '' (checkInvalidKeys (opts_keys opts) VerifyOptsKeys)
              @ '' is/are not valid key(s) for VerifyOpts.'')))])"
  "trace (check_scheme params opts st) = trace st @
     (if truthy (p_scheme params) \<and> p_scheme params \<noteq> scheme (self st)
      then [FailCalled (failure (SiweError SCHEME_MISMATCH (p_scheme params) (scheme (self st))))]
      else [])"
  "trace (check_domain params opts st) = trace st @
     (if truthy (p_domain params) \<and> p_domain params \<noteq> Some (domain (self st))
      then [FailCalled (failure (SiweError DOMAIN_MISMATCH (p_domain params) (Some (domain (self st)))))]
      else [])"
  "trace (check_nonce params opts st) = trace st @
     (if truthy (p_nonce params) \<and> p_nonce params \<noteq> Some (nonce (self st))
      then [FailCalled (failure (SiweError NONCE_MISMATCH (p_nonce params) (Some (nonce (self st)))))]
      else [])"
  "trace (check_expiration env params opts st) = trace st @
     (if truthy (expirationTime (self st)) \<and>
         time_ge (checkTime env params)
           (parseDate env (undefined_as_empty (expirationTime (self st))))
      then [FailCalled (failure (SiweError EXPIRED_MESSAGE
              (Some (iso env (checkTime env params) @ '' < ''
                 @ iso env (parseDate env (undefined_as_empty (expirationTime (self st))))))
              (Some (iso env (checkTime env params) @ '' >= ''
                 @ iso env (parseDate env (undefined_as_empty (expirationTime (self st))))))))]
      else [])"
  "trace (check_notBefore env params opts st) = trace st @
     (if truthy (notBefore (self st)) \<and>
         time_lt (checkTime env params)
           (parseDate env (undefined_as_empty (notBefore (self st))))
      then [FailCalled (failure (SiweError NOT_YET_VALID_MESSAGE
              (Some (iso env (checkTime env params) @ '' >= ''
                 @ iso env (parseDate env (undefined_as_empty (notBefore (self st))))))
              (Some (iso env (checkTime env params) @ '' < ''
                 @ iso env (parseDate env (undefined_as_empty (notBefore (self st))))))))]
      else [])"
  "trace (fst (serialize_stage env opts st)) = trace st @
     (case prepareMessage env (self st) of Inl e \<Rightarrow> [FailCalled (failure e)] | Inr x \<Rightarrow> [])"
  by (simp_all add: check_defs Let_def serialize_stage_def split: sum.splits prod.splits)

lemma fails_only_checks:
  "list_all is_fail_call (trace st) \<Longrightarrow> list_all is_fail_call (trace (check_params_keys params opts st))"
  "list_all is_fail_call (trace st) \<Longrightarrow> list_all is_fail_call (trace (check_opts_keys opts st))"
  "list_all is_fail_call (trace st) \<Longrightarrow> list_all is_fail_call (trace (check_scheme params opts st))"
  "list_all is_fail_call (trace st) \<Longrightarrow> list_all is_fail_call (trace (check_domain params opts st))"
  "list_all is_fail_call (trace st) \<Longrightarrow> list_all is_fail_call (trace (check_nonce params opts st))"
  "list_all is_fail_call (trace st) \<Longrightarrow> list_all is_fail_call (trace (check_expiration env params opts st))"
  "list_all is_fail_call (trace st) \<Longrightarrow> list_all is_fail_call (trace (check_notBefore env params opts st))"
  "list_all is_fail_call (trace st) \<Longrightarrow> list_all is_fail_call (trace (fst (serialize_stage env opts st)))"
  by (simp_all add: check_defs Let_def serialize_stage_def failure_def
      split: sum.splits prod.splits)

lemma fails_only_checks_stage:
  "list_all is_fail_call (trace (fst (checks_stage env this0 params opts)))"
  by (simp add: checks_stage_def fails_only_checks)

lemma trace_match:
  "trace (match_stage env params opts addr st) = trace st @
     (if addr = Some (address (self st))
      then [ResolveCalled \<lparr>success = True, data = This, error = None\<rparr>]
      else [CheckContractWalletSignatureCalled (p_signature params)]
        @ (if verificationFallback opts \<noteq> None then [VerificationFallbackCalled] else [])
        @ (let eip1271 = EIP1271Response (self st) addr
               (checkContractWalletSignature env (self st) (p_signature params) (provider opts))
           in case fallbackResponse params opts (self st) eip1271 of
                Some fb \<Rightarrow> [if success fb then ResolveCalled fb else FailCalled fb]
              | None \<Rightarrow> [if success eip1271 then ResolveCalled eip1271 else FailCalled eip1271]))"
  by (auto simp add: match_stage_def Let_def split: option.splits)

lemma address_message_after [simp]: "address (message_after env this0) = address this0"
  by (simp add: message_after_def prepareMessage_def toMessage_def Let_def split: sum.splits prod.splits)

lemma settled_match_pending:
  "settled st = None \<Longrightarrow> settled (match_stage env params opts addr st) =
     Some (if addr = Some (address (self st))
      then Resolved \<lparr>success = True, data = This, error = None\<rparr>
      else (let eip1271 = EIP1271Response (self st) addr
               (checkContractWalletSignature env (self st) (p_signature params) (provider opts))
           in case fallbackResponse params opts (self st) eip1271 of
                Some fb \<Rightarrow> if success fb then Resolved fb else delivered opts fb
              | None \<Rightarrow> if success eip1271 then Resolved eip1271 else delivered opts eip1271))"
  by (simp add: match_stage_def Let_def split: option.splits)

text \<open>The events of a whole call.\<close>

lemma trace_verify:
  "trace (verify env this0 params opts) =
     trace (fst (checks_stage env this0 params opts))
     @ [VerifyMessageCalled (EIP4361Message env this0) (p_signature params)]
     @ (if recovered env this0 params = None then [ConsoleErrorCalled] else [])
     @ (if recovered env this0 params = Some (address this0)
        then [ResolveCalled \<lparr>success = True, data = This, error = None\<rparr>]
        else [CheckContractWalletSignatureCalled (p_signature params)]
          @ (if verificationFallback opts \<noteq> None then [VerificationFallbackCalled] else [])
          @ (case fallbackResponse params opts (message_after env this0)
                    (contract_wallet_response env this0 params opts) of
               Some fb \<Rightarrow> [if success fb then ResolveCalled fb else FailCalled fb]
             | None \<Rightarrow>
                 [if success (contract_wallet_response env this0 params opts)
                  then ResolveCalled (contract_wallet_response env this0 params opts)
                  else FailCalled (contract_wallet_response env this0 params opts)]))"
  unfolding contract_wallet_response_def recovered_def
  by (simp add: verify_unfold trace_match Let_def)

lemma settled_verify_pending:
  "no_stage_fails env this0 params opts \<Longrightarrow>
   settled (verify env this0 params opts) =
     Some (if recovered env this0 params = Some (address this0)
      then Resolved \<lparr>success = True, data = This, error = None\<rparr>
      else (case fallbackResponse params opts (message_after env this0)
                    (contract_wallet_response env this0 params opts) of
                Some fb \<Rightarrow> if success fb then Resolved fb else delivered opts fb
              | None \<Rightarrow>
                  if success (contract_wallet_response env this0 params opts)
                  then Resolved (contract_wallet_response env this0 params opts)
                  else delivered opts (contract_wallet_response env this0 params opts)))"
  unfolding contract_wallet_response_def recovered_def
  by (simp add: verify_unfold settled_match_pending pending_checks_stage Let_def)

lemma self_verify: "self (verify env this0 params opts) = message_after env this0"
  by (simp add: verify_unfold match_stage_def Let_def split: option.splits)

lemma trace_checks_stage:
  "trace (fst (checks_stage env this0 params opts)) =
     (if checkInvalidKeys (params_keys params) VerifyParamsKeys = [] then []
      else [FailCalled (failure (Error (join '', '' (checkInvalidKeys (params_keys params) VerifyParamsKeys)
              @ '' is/are not valid key(s) for VerifyParams.'')))])
   @ (if checkInvalidKeys (opts_keys opts) VerifyOptsKeys = [] then []
      else [FailCalled (failure (Error (join '', '' (checkInvalidKeys (opts_keys opts) VerifyOptsKeys)
              @ '' is/are not valid key(s) for VerifyOpts.'')))])
   @ (if truthy (p_scheme params) \<and> p_scheme params \<noteq> scheme this0
      then [FailCalled (failure (SiweError SCHEME_MISMATCH (p_scheme params) (scheme this0)))]
      else [])
   @ (if truthy (p_domain params) \<and> p_domain params \<noteq> Some (domain this0)
      then [FailCalled (failure (SiweError DOMAIN_MISMATCH (p_domain params) (Some (domain this0))))]
      else [])
   @ (if truthy (p_nonce params) \<and> p_nonce params \<noteq> Some (nonce this0)
      then [FailCalled (failure (SiweError NONCE_MISMATCH (p_nonce params) (Some (nonce this0))))]
      else [])
   @ (if truthy (expirationTime this0) \<and>
         time_ge (checkTime env params)
           (parseDate env (undefined_as_empty (expirationTime this0)))
      then [FailCalled (failure (SiweError EXPIRED_MESSAGE
              (Some (iso env (checkTime env params) @ '' < ''
                 @ iso env (parseDate env (undefined_as_empty (expirationTime this0)))))
              (Some (iso env (checkTime env params) @ '' >= ''
                 @ iso env (parseDate env (undefined_as_empty (expirationTime this0)))))))]
      else [])
   @ (if truthy (notBefore this0) \<and>
         time_lt (checkTime env params)
           (parseDate env (undefined_as_empty (notBefore this0)))
      then [FailCalled (failure (SiweError NOT_YET_VALID_MESSAGE
              (Some (iso env (checkTime env params) @ '' >= ''
                 @ iso env (parseDate env (undefined_as_empty (notBefore this0)))))
              (Some (iso env (checkTime env params) @ '' < ''
                 @ iso env (parseDate env (undefined_as_empty (notBefore this0)))))))]
      else [])
   @ (case prepareMessage env this0 of Inl e \<Rightarrow> [FailCalled (failure e)] | Inr x \<Rightarrow> [])"
  unfolding checks_stage_def Let_def
  by (simp only: trace_checks self_checks vstate.simps append_Nil append_assoc)

lemma first_settling_mem: "first_settling es = Some e \<Longrightarrow> e \<in> set es"
  by (induction es rule: first_settling.induct) (auto split: if_splits)

lemma settlement_of_simps [simp]:
  "settlement_of opts [] = None"
  "settlement_of opts (FailCalled r # es) = Some (delivered opts r)"
  "settlement_of opts (ResolveCalled r # es) = Some (Resolved r)"
  "settlement_of opts (VerifyMessageCalled m s # es) = settlement_of opts es"
  "settlement_of opts (ConsoleErrorCalled # es) = settlement_of opts es"
  "settlement_of opts (CheckContractWalletSignatureCalled s # es) = settlement_of opts es"
  "settlement_of opts (VerificationFallbackCalled # es) = settlement_of opts es"
  by (simp_all add: settlement_of_def)

lemma settlement_of_append:
  "settlement_of opts (es @ fs) =
     (case settlement_of opts es of None \<Rightarrow> settlement_of opts fs | Some s \<Rightarrow> Some s)"
  by (induction es rule: first_settling.induct) simp_all

lemma settlement_checks:
  "settled st = settlement_of opts (trace st) \<Longrightarrow>
   settled (check_params_keys params opts st) =
     settlement_of opts (trace (check_params_keys params opts st))"
  "settled st = settlement_of opts (trace st) \<Longrightarrow>
   settled (check_opts_keys opts st) = settlement_of opts (trace (check_opts_keys opts st))"
  "settled st = settlement_of opts (trace st) \<Longrightarrow>
   settled (check_scheme params opts st) =
     settlement_of opts (trace (check_scheme params opts st))"
  "settled st = settlement_of opts (trace st) \<Longrightarrow>
   settled (check_domain params opts st) =
     settlement_of opts (trace (check_domain params opts st))"
  "settled st = settlement_of opts (trace st) \<Longrightarrow>
   settled (check_nonce params opts st) =
     settlement_of opts (trace (check_nonce params opts st))"
  "settled st = settlement_of opts (trace st) \<Longrightarrow>
   settled (check_expiration env params opts st) =
     settlement_of opts (trace (check_expiration env params opts st))"
  "settled st = settlement_of opts (trace st) \<Longrightarrow>
   settled (check_notBefore env params opts st) =
     settlement_of opts (trace (check_notBefore env params opts st))"
  "settled st = settlement_of opts (trace st) \<Longrightarrow>
   settled (fst (serialize_stage env opts st)) =
     settlement_of opts (trace (fst (serialize_stage env opts st)))"
  by (simp_all add: check_defs Let_def serialize_stage_def settlement_of_append first_wins_def
      split: sum.splits prod.splits option.splits)

lemma settlement_checks_stage:
  "settled (fst (checks_stage env this0 params opts)) =
     settlement_of opts (trace (fst (checks_stage env this0 params opts)))"
  unfolding checks_stage_def Let_def
  by (intro settlement_checks) (simp add: settlement_of_def)

lemma settlement_recover:
  "settled st = settlement_of opts (trace st) \<Longrightarrow>
   settled (fst (recover_stage env params msg st)) =
     settlement_of opts (trace (fst (recover_stage env params msg st)))"
  by (simp add: recover_stage_def Let_def settlement_of_append split: option.splits)

lemma settlement_match:
  "settled st = settlement_of opts (trace st) \<Longrightarrow>
   settled (match_stage env params opts addr st) =
     settlement_of opts (trace (match_stage env params opts addr st))"
  by (simp add: match_stage_def Let_def settlement_of_append first_wins_def
      split: option.splits)

text \<open>The promise of a call is settled by the first call of \<open>fail\<close> or \<open>resolve\<close>.\<close>

lemma settlement_verify:
  "settled (verify env this0 params opts) =
     settlement_of opts (trace (verify env this0 params opts))"
  unfolding verify_unfold
  by (intro settlement_match settlement_recover settlement_checks_stage)

lemma fail_calls_verify:
  "FailCalled r \<in> set (trace (verify env this0 params opts)) \<Longrightarrow> \<not> success r"
  using fails_only_checks_stage [of env this0 params opts]
  by (auto simp add: trace_verify list_all_iff split: if_splits option.splits)


lemma prepareMessage_error:
  "prepareMessage env this0 = Inl e \<Longrightarrow> e = Error ''Error during nonce creation.''"
  by (simp add: prepareMessage_def toMessage_def generateNonce_def Let_def
      split: if_splits sum.splits)


section \<open>The serializer and the constructor\<close>

lemma join_Cons: "join sep (x # xs) = (if xs = [] then x else x @ sep @ join sep xs)"
  by (cases xs) simp_all

lemma join_concat: "join sep (x # xs) = x @ concat (map ((@) sep) xs)"
  by (induction sep "x # xs" arbitrary: x xs rule: join.induct) simp_all

lemma if_snoc: "(if c then a @ b else a) = a @ (if c then b else [])"
  by simp

lemma optional_line_eq:
  "optional_line tag x = (if truthy x then [tag @ undefined_as_empty x] else [])"
  by (cases x) (simp_all add: optional_line_def truthy_def undefined_as_empty_def)

lemma header_line_eq:
  "header_line m = (if truthy (scheme m) then undefined_as_empty (scheme m) @ ''://'' @ domain m
      else domain m) @ '' wants you to sign in with your Ethereum account:''"
  by (cases "scheme m") (simp_all add: header_line_def truthy_def undefined_as_empty_def)

lemma toMessage_result:
  "toMessage env m =
     (if nonce m = [] \<and> \<not> valid_nonce (drawn env)
      then Inl (Error ''Error during nonce creation.'')
      else Inr (with_defaults env m, join LF (message_lines (with_defaults env m))))"
proof -
  have g: "(if nonce m = [] then generateNonce (drawn env) else Inr (nonce m)) =
     (if nonce m = [] \<and> \<not> valid_nonce (drawn env)
      then Inl (Error ''Error during nonce creation.'')
      else Inr (nonce (with_defaults env m)))"
    by (simp add: generateNonce_def valid_nonce_def with_defaults_def)
  show ?thesis
  proof (cases "nonce m = [] \<and> \<not> valid_nonce (drawn env)")
    case True
    then show ?thesis unfolding toMessage_def g Let_def by simp
  next
    case False
    have n: "m\<lparr>nonce := nonce (with_defaults env m)\<rparr>\<lparr>issuedAt :=
        Some (if truthy (issuedAt m) then undefined_as_empty (issuedAt m) else nowISO env)\<rparr>
          = with_defaults env m"
      by (simp add: with_defaults_def)
    from False show ?thesis
      unfolding toMessage_def g Let_def
      by (cases "resources m"; cases "statement m")
         (simp_all add: n if_snoc message_lines_def optional_line_eq header_line_eq
           join_concat undefined_as_empty_def with_defaults_def del: join.simps)
  qed
qed

lemma prepareMessage_result:
  "prepareMessage env m = toMessage env m"
  by (simp add: prepareMessage_def)

text \<open>The empty statement and the absent statement are serialized differently.\<close>

lemma empty_statement_differs:
  "join LF (message_lines (m\<lparr>statement := Some []\<rparr>))
     \<noteq> join LF (message_lines (m\<lparr>statement := None\<rparr>))"
  by (simp add: message_lines_def join_Cons header_line_def)


lemma of_fields_nonce:
  assumes "SiweMessage_of_fields env param = Inr m"
  shows "nonce m = (if truthy (f_nonce param) then undefined_as_empty (f_nonce param)
                    else drawn env)"
    and "\<not> truthy (f_nonce param) \<Longrightarrow> valid_nonce (drawn env)"
  using assms
  by (auto simp add: SiweMessage_of_fields_def prepareMessage_result toMessage_result
      with_defaults_def generateNonce_def valid_nonce_def truthy_def undefined_as_empty_def
      Let_def split: sum.splits chain_value.splits if_splits option.splits)


section \<open>Lines\<close>

lemma split_lines_not_Nil [simp]: "split_lines s \<noteq> []"
  by (induction s) (auto split: list.splits)

lemma split_lines_no_newline: "no_newline l \<Longrightarrow> split_lines l = [l]"
  by (induction l) (auto simp add: no_newline_def)

lemma split_lines_line:
  "no_newline l \<Longrightarrow> split_lines (l @ CHR 0x0A # s) = l # split_lines s"
  by (induction l) (auto simp add: no_newline_def)

lemma split_lines_join:
  "ls \<noteq> [] \<Longrightarrow> list_all no_newline ls \<Longrightarrow> split_lines (join LF ls) = ls"
proof (induction ls)
  case Nil
  then show ?case by simp
next
  case (Cons x xs)
  show ?case
  proof (cases "xs = []")
    case True
    with Cons.prems show ?thesis by (simp add: split_lines_no_newline)
  next
    case False
    with Cons have "split_lines (join LF xs) = xs" by simp
    with False Cons.prems show ?thesis
      by (simp add: join_Cons split_lines_line)
  qed
qed

section \<open>Prefixes, suffixes, digits\<close>

lemma strip_prefix_append [simp]: "strip_prefix p (p @ s) = Some s"
  by (induction p) simp_all

lemma strip_prefix_Some: "strip_prefix p s = Some r \<Longrightarrow> s = p @ r"
  by (induction p s rule: strip_prefix.induct) (auto split: if_splits)

lemma strip_suffix_append [simp]: "strip_suffix suffix (p @ suffix) = Some p"
  by (simp add: strip_suffix_def)

lemma split_scheme_none: "CHR ''/'' \<notin> set d \<Longrightarrow> split_scheme d = None"
  by (induction d) (auto split: option.splits if_splits list.splits dest!: strip_prefix_Some)

lemma split_scheme_some:
  "CHR '':'' \<notin> set s \<Longrightarrow> split_scheme (s @ ''://'' @ d) = Some (s, d)"
  by (induction s) (auto split: option.splits)

lemma digit_value_table: "\<forall>k\<in>{0..<10}. digit_value (''0123456789'' ! k) = Some k"
  by code_simp

lemma digit_value_digit_char: "digit_value (digit_char n) = Some (n mod 10)"
  using digit_value_table by (simp add: digit_char_def)

lemma parse_digits_append:
  "parse_digits (xs @ ys) acc =
     (case parse_digits xs acc of None \<Rightarrow> None | Some a \<Rightarrow> parse_digits ys a)"
  by (induction xs arbitrary: acc) (simp_all split: option.splits)

lemma parse_digits_digits: "parse_digits (digits n) 0 = Some n"
proof (induction n rule: digits.induct)
  case (1 n)
  show ?case
  proof (cases "n < 10")
    case True
    then show ?thesis
      by (subst digits.simps) (simp add: digit_value_digit_char)
  next
    case False
    with 1 have "parse_digits (digits (n div 10)) 0 = Some (n div 10)" by simp
    with False show ?thesis
      by (subst digits.simps) (simp add: parse_digits_append digit_value_digit_char)
  qed
qed

lemma digits_not_Nil: "digits n \<noteq> []"
  by (subst digits.simps) simp

lemma parse_nat_digits [simp]: "parse_nat (digits n) = Some n"
  by (simp add: parse_nat_def digits_not_Nil parse_digits_digits)

lemma length_digits: "0 < k \<Longrightarrow> n < 10 ^ k \<Longrightarrow> length (digits n) \<le> k"
proof (induction n arbitrary: k rule: digits.induct)
  case (1 n)
  show ?case
  proof (cases "n < 10")
    case True
    with 1(2) show ?thesis by (subst digits.simps) simp
  next
    case False
    with 1(3) have "1 < k" by (cases "k = 1") (use 1(2) in simp_all)
    moreover from 1(3) this have "n div 10 < 10 ^ (k - 1)"
      by (cases k) (simp_all add: less_mult_imp_div_less mult.commute)
    ultimately have "length (digits (n div 10)) \<le> k - 1"
      using False by (intro 1(1)) simp_all
    with False \<open>1 < k\<close> show ?thesis by (subst digits.simps) simp
  qed
qed

text \<open>An integer below \<open>2^53\<close> that is not negative is printed as its decimal digits.\<close>

lemma number_to_string_safe:
  "0 \<le> n \<Longrightarrow> n < 2 ^ 53 \<Longrightarrow> number_to_string n = digits (nat n)"
proof -
  assume "0 \<le> n" and "n < 2 ^ 53"
  then have "\<not> n < 0" and "nat n < 10 ^ 21" by simp_all
  then have "length (digits (nat n)) \<le> 21" by (intro length_digits) simp_all
  with \<open>\<not> n < 0\<close> show ?thesis by (simp add: number_to_string_def natural_to_string_def)
qed

lemma digit_char_no_newline: "digit_char n \<noteq> CHR 0x0A"
proof -
  have "digit_value (digit_char n) \<noteq> digit_value (CHR 0x0A)"
    by (simp add: digit_value_digit_char) (simp add: digit_value_def)
  then show ?thesis by auto
qed

lemma digits_no_newline: "no_newline (digits n)"
proof (induction n rule: digits.induct)
  case (1 n)
  then show ?case
    by (subst digits.simps) (auto simp add: no_newline_def digit_char_no_newline digit_char_no_newline [THEN not_sym])
qed

lemma alphanumeric_no_newline: "alphanumeric c \<Longrightarrow> c \<noteq> CHR 0x0A"
  by (auto simp add: alphanumeric_def)

lemma valid_nonce_no_newline: "valid_nonce n \<Longrightarrow> no_newline n"
  by (auto simp add: valid_nonce_def no_newline_def list_all_iff dest: alphanumeric_no_newline)

lemma those_strip_prefix [simp]:
  "those (map (strip_prefix p) (map ((@) p) rs)) = Some rs"
  by (induction rs) simp_all


section \<open>Parsing a serialized message\<close>

lemma no_newline_simps [simp]:
  "no_newline []"
  "no_newline (c # cs) \<longleftrightarrow> c \<noteq> CHR 0x0A \<and> no_newline cs"
  "no_newline (a @ b) \<longleftrightarrow> no_newline a \<and> no_newline b"
  by (auto simp add: no_newline_def)

lemma those_strip_prefix_comp [simp]:
  "those (map (strip_prefix p \<circ> (@) p) rs) = Some rs"
  by (induction rs) simp_all

lemma parse_header_line:
  assumes "case scheme m of None \<Rightarrow> True | Some s \<Rightarrow> CHR '':'' \<notin> set s \<and> s \<noteq> []"
    and "CHR ''/'' \<notin> set (domain m)"
  shows "parse_header (header_line m) = Some (scheme m, domain m)"
proof -
  let ?suffix = "'' wants you to sign in with your Ethereum account:''"
  let ?p = "(case scheme m of None \<Rightarrow> [] | Some s \<Rightarrow> s @ ''://'') @ domain m"
  from assms have "header_line m = ?p @ ?suffix"
    by (simp add: header_line_def split: option.splits)
  then have 1: "strip_suffix ?suffix (header_line m) = Some ?p"
    by (simp only: strip_suffix_append)
  have 2: "split_scheme ?p = (case scheme m of None \<Rightarrow> None | Some s \<Rightarrow> Some (s, domain m))"
  proof (cases "scheme m")
    case None
    with assms show ?thesis by (simp add: split_scheme_none)
  next
    case (Some s)
    with assms have "split_scheme (s @ ''://'' @ domain m) = Some (s, domain m)"
      by (intro split_scheme_some) simp
    with Some show ?thesis by simp
  qed
  show ?thesis
    unfolding parse_header_def 1 by (simp add: 2 split: option.splits)
qed

lemma parse_tail:
  assumes "expiry \<noteq> Some []" "nb \<noteq> Some []" "rid \<noteq> Some []"
  shows "(case parse_optional ''Expiration Time: ''
            (optional_line ''Expiration Time: '' expiry
             @ optional_line ''Not Before: '' nb
             @ optional_line ''Request ID: '' rid
             @ (case res of None \<Rightarrow> [] | Some rs \<Rightarrow> ''Resources:'' # map ((@) ''- '') rs)) of
          (e, ls10) \<Rightarrow>
            case parse_optional ''Not Before: '' ls10 of
            (n, ls11) \<Rightarrow>
              case parse_optional ''Request ID: '' ls11 of
              (r, ls12) \<Rightarrow> parse_resources ls12 \<bind> (\<lambda>rs. Some (F e n r rs)))
         = Some (F expiry nb rid res)"
  using assms
  by (cases expiry; cases nb; cases rid; cases res)
     (simp_all add: parse_optional_def take_field_def optional_line_def parse_resources_def)

lemma parse_message_lines_valid:
  assumes "valid_message m"
  shows "parse_message_lines (message_lines m) =
     Some \<lparr>pm_scheme = scheme m, pm_domain = domain m, pm_address = address m,
           pm_statement = statement m, pm_uri = uri m, pm_version = version m,
           pm_chainId = (case chainId m of ChainNumber n \<Rightarrow> n | ChainString s \<Rightarrow> 0),
           pm_nonce = nonce m, pm_issuedAt = undefined_as_empty (issuedAt m),
           pm_expirationTime = expirationTime m, pm_notBefore = notBefore m,
           pm_requestId = requestId m, pm_resources = resources m\<rparr>"
proof -
  from assms have h: "parse_header (header_line m) = Some (scheme m, domain m)"
    by (intro parse_header_line) (simp_all add: valid_message_def)
  from assms obtain n where c: "chainId m = ChainNumber n" "0 \<le> n" "n < 2 ^ 53"
    by (auto simp add: valid_message_def split: chain_value.splits)
  from c have c': "number_to_string n = digits (nat n)"
    by (simp add: number_to_string_safe)
  from assms have v: "valid_nonce (nonce m)" "expirationTime m \<noteq> Some []"
    "notBefore m \<noteq> Some []" "requestId m \<noteq> Some []"
    by (simp_all add: valid_message_def)
  show ?thesis
    unfolding parse_message_lines_def message_lines_def
    by (cases "statement m")
       (simp_all add: next_line_def take_field_def parse_statement_def h c(1,2) c'(1) v
          chain_to_string_def parse_tail)
qed


section \<open>What the constructor returns\<close>

lemma with_defaults_idem [simp]:
  "with_defaults env (with_defaults env m) = with_defaults env m"
  by (cases "issuedAt m") (auto simp add: with_defaults_def truthy_def undefined_as_empty_def)

lemma of_fields_result:
  "SiweMessage_of_fields env f =
     (case f_chainId f of
        ChainString s \<Rightarrow>
          (if parse_nat s = None then Inl (Error ''Invalid number.'') else
           if \<not> truthy (f_nonce f) \<and> \<not> valid_nonce (drawn env)
           then Inl (Error ''Error during nonce creation.'') else
             (case ParsedMessage (join LF (message_lines (assembled env f))) of
                Inl e \<Rightarrow> Inl e | Inr p \<Rightarrow> Inr (assembled env f)))
      | ChainNumber n \<Rightarrow>
          (if \<not> truthy (f_nonce f) \<and> \<not> valid_nonce (drawn env)
           then Inl (Error ''Error during nonce creation.'') else
             (case ParsedMessage (join LF (message_lines (assembled env f))) of
                Inl e \<Rightarrow> Inl e | Inr p \<Rightarrow> Inr (assembled env f))))"
proof -
  have d: "\<And>m. nonce m \<noteq> [] \<Longrightarrow>
      with_defaults env m = m\<lparr>issuedAt := Some (if truthy (issuedAt m)
         then undefined_as_empty (issuedAt m) else nowISO env)\<rparr>"
    by (simp add: with_defaults_def)
  have e: "valid_nonce (drawn env) \<Longrightarrow> drawn env \<noteq> []"
    by (auto simp add: valid_nonce_def)
  show ?thesis
    by (cases "f_chainId f"; cases "f_nonce f"; cases "parse_nat (case f_chainId f of ChainString s \<Rightarrow> s | _ \<Rightarrow> [])")
       (auto simp add: SiweMessage_of_fields_def prepareMessage_result toMessage_result
          parseIntegerNumber_def generateNonce_def assembled_def truthy_def
          undefined_as_empty_def d e valid_nonce_def Let_def
          split: sum.splits)
qed


section \<open>Round trip\<close>

lemma message_lines_no_newline:
  assumes "valid_message m"
  shows "list_all no_newline (message_lines m)"
proof -
  from assms obtain n where c: "chainId m = ChainNumber n" "0 \<le> n" "n < 2 ^ 53"
    by (auto simp add: valid_message_def split: chain_value.splits)
  from c have c': "number_to_string n = digits (nat n)"
    by (simp add: number_to_string_safe)
  from assms have "no_newline (nonce m)"
    by (simp add: valid_message_def valid_nonce_no_newline)
  with assms c(1) c' show ?thesis
    by (auto simp add: valid_message_def message_lines_def header_line_def optional_line_def
        no_newline_opt_def chain_to_string_def digits_no_newline
        undefined_as_empty_def list_all_iff split: option.splits)
qed

lemma of_string_serialized:
  assumes "valid_message m"
  shows "SiweMessage_of_string (join LF (message_lines m)) = Inr m"
proof -
  have "message_lines m \<noteq> []" by (simp add: message_lines_def)
  with assms have "split_lines (join LF (message_lines m)) = message_lines m"
    by (intro split_lines_join message_lines_no_newline)
  moreover from assms obtain n i where "chainId m = ChainNumber n" "issuedAt m = Some i"
    by (auto simp add: valid_message_def split: chain_value.splits)
  ultimately show ?thesis
    using assms
    by (simp add: SiweMessage_of_string_def ParsedMessage_def parse_message_lines_valid
        undefined_as_empty_def)
qed

lemma assembled_valid:
  assumes "structurally_valid env f" and "no_empty_optional f" and "safe_chain_id f"
  shows "valid_message (assembled env f)"
  using assms
  by (auto simp add: structurally_valid_def no_empty_optional_def safe_chain_id_def
      valid_message_def assembled_def no_newline_opt_def
      split: option.splits chain_value.splits)

lemma assembled_stable:
  "nonce (assembled env f) \<noteq> [] \<Longrightarrow> with_defaults env (assembled env f) = assembled env f"
  by (cases "f_issuedAt f")
     (auto simp add: with_defaults_def assembled_def truthy_def undefined_as_empty_def)



section \<open>What the parser accepts\<close>

lemma next_line_Some: "next_line ls = Some (l, rest) \<longleftrightarrow> ls = l # rest"
  by (cases ls) (auto simp add: next_line_def)

lemma take_field_Some: "take_field tag ls = Some (v, rest) \<longleftrightarrow> ls = (tag @ v) # rest"
  by (cases ls) (auto simp add: take_field_def split: option.splits dest: strip_prefix_Some)

lemma parse_statement_Some:
  "parse_statement ls = Some (stmt, rest) \<Longrightarrow>
     (stmt = None \<and> ls = [] # rest) \<or> (\<exists>x. stmt = Some x \<and> ls = x # [] # rest)"
  by (auto simp add: parse_statement_def split: list.splits if_splits)

lemma parse_message_lines_Some:
  assumes "parse_message_lines L = Some p"
  shows "\<exists>header addr ls3 stmt u v c ls9.
    L = header # addr # [] # ls3
    \<and> parse_statement ls3 =
       Some (stmt, (''URI: '' @ u) # (''Version: '' @ v) # (''Chain ID: '' @ c)
          # (''Nonce: '' @ pm_nonce p) # (''Issued At: '' @ pm_issuedAt p) # ls9)
    \<and> valid_nonce (pm_nonce p)
    \<and> parse_resources
         (snd (parse_optional ''Request ID: ''
           (snd (parse_optional ''Not Before: ''
             (snd (parse_optional ''Expiration Time: '' ls9)))))) \<noteq> None"
  using assms
  by (auto simp add: parse_message_lines_def bind_eq_Some_conv next_line_Some take_field_Some
      split_beta split: if_splits)

text \<open>No line after the issue time is a nonce line or an issue time line.\<close>

lemma parse_optional_rest:
  "l \<in> set ls \<Longrightarrow> l \<in> set (snd (parse_optional tag ls)) \<or> (\<exists>v. l = tag @ v)"
  by (cases ls) (auto simp add: parse_optional_def take_field_def split: option.splits
      dest: strip_prefix_Some)

lemma those_strip_prefix_Some:
  "those (map (strip_prefix tag) ls) = Some rs \<Longrightarrow> l \<in> set ls \<Longrightarrow> \<exists>v. l = tag @ v"
  by (induction ls arbitrary: rs) (auto split: option.splits dest: strip_prefix_Some)

lemma parse_resources_lines:
  "parse_resources ls \<noteq> None \<Longrightarrow> l \<in> set ls \<Longrightarrow> l = ''Resources:'' \<or> (\<exists>v. l = ''- '' @ v)"
  by (cases ls) (auto simp add: parse_resources_def split: if_splits
      dest: those_strip_prefix_Some)

lemma tail_lines:
  assumes "parse_resources
         (snd (parse_optional ''Request ID: ''
           (snd (parse_optional ''Not Before: ''
             (snd (parse_optional ''Expiration Time: '' ls9)))))) \<noteq> None"
    and "l \<in> set ls9"
  shows "strip_prefix ''Nonce: '' l = None \<and> strip_prefix ''Issued At: '' l = None"
proof -
  from assms(2) parse_optional_rest [of l ls9 "''Expiration Time: ''"]
    parse_optional_rest [of l _ "''Not Before: ''"]
    parse_optional_rest [of l _ "''Request ID: ''"]
    parse_resources_lines [OF assms(1), of l]
  have "(\<exists>v. l = ''Expiration Time: '' @ v) \<or> (\<exists>v. l = ''Not Before: '' @ v)
      \<or> (\<exists>v. l = ''Request ID: '' @ v) \<or> l = ''Resources:'' \<or> (\<exists>v. l = ''- '' @ v)"
    by blast
  then show ?thesis by auto
qed


section \<open>The lines of a serialization whose fields may contain newlines\<close>

lemma split_lines_append_LF:
  "split_lines (a @ CHR 0x0A # b) = split_lines a @ split_lines b"
proof (induction a)
  case Nil
  then show ?case by simp
next
  case (Cons c a)
  obtain l ls where "split_lines a = l # ls"
    by (cases "split_lines a") simp_all
  with Cons show ?case by simp
qed

lemma split_lines_join_concat:
  "xs \<noteq> [] \<Longrightarrow> split_lines (join LF xs) = concat (map split_lines xs)"
proof (induction xs)
  case Nil
  then show ?case by simp
next
  case (Cons x xs)
  then show ?case
    by (cases "xs = []") (simp_all add: join_Cons split_lines_append_LF)
qed

lemma split_lines_tag:
  "no_newline tag \<Longrightarrow>
   split_lines (tag @ x) = (tag @ hd (split_lines x)) # tl (split_lines x)"
proof (induction tag)
  case Nil
  then show ?case by simp
next
  case (Cons c tag)
  then show ?case by simp
qed

lemma split_lines_single: "split_lines x = [h] \<Longrightarrow> x = h"
proof (induction x arbitrary: h)
  case Nil
  then show ?case by simp
next
  case (Cons c x)
  obtain l ls where l: "split_lines x = l # ls"
    by (cases "split_lines x") simp_all
  with Cons.prems have "c \<noteq> CHR 0x0A" "ls = []" "h = c # l"
    by (auto split: if_splits)
  with l Cons.IH [of l] show ?case by simp
qed

lemma length_concat_split_lines:
  "length xs \<le> length (concat (map split_lines xs))"
proof (induction xs)
  case Nil
  then show ?case by simp
next
  case (Cons x xs)
  have "1 \<le> length (split_lines x)"
    by (cases "split_lines x") simp_all
  with Cons show ?case by simp
qed

text \<open>
  If the parser accepts the serialization of a message, whatever its fields contain,
  the nonce it read is the nonce of the message.
\<close>

lemma accepted_nonce:
  assumes "parse_message_lines (split_lines (join LF (message_lines m))) = Some p"
  shows "nonce m = pm_nonce p"
proof -
  define A where "A = [header_line m, address m, []]
       @ (case statement m of None \<Rightarrow> [] | Some s \<Rightarrow> [s])
       @ [[]]
       @ [''URI: '' @ uri m, ''Version: '' @ version m,
          ''Chain ID: '' @ chain_to_string (chainId m)]"
  define T where "T = optional_line ''Expiration Time: '' (expirationTime m)
       @ optional_line ''Not Before: '' (notBefore m)
       @ optional_line ''Request ID: '' (requestId m)
       @ (case resources m of None \<Rightarrow> [] | Some rs \<Rightarrow> ''Resources:'' # map (\<lambda>x. ''- '' @ x) rs)"
  define X where "X = concat (map split_lines A)"
  define R where "R = concat (map split_lines T)"
  define t where "t = tl (split_lines (nonce m))"
  define NLh where "NLh = ''Nonce: '' @ hd (split_lines (nonce m))"
  define ILh where "ILh = ''Issued At: '' @ hd (split_lines (undefined_as_empty (issuedAt m)))"
  define it where "it = tl (split_lines (undefined_as_empty (issuedAt m)))"
  let ?L = "split_lines (join LF (message_lines m))"
  have ml: "message_lines m =
      A @ [''Nonce: '' @ nonce m, ''Issued At: '' @ undefined_as_empty (issuedAt m)] @ T"
    by (simp add: message_lines_def A_def T_def)
  have "?L = concat (map split_lines (message_lines m))"
    by (rule split_lines_join_concat) (simp add: message_lines_def)
  also have "\<dots> = X @ split_lines (''Nonce: '' @ nonce m)
      @ split_lines (''Issued At: '' @ undefined_as_empty (issuedAt m)) @ R"
    by (simp add: ml X_def R_def)
  also have "split_lines (''Nonce: '' @ nonce m) = NLh # t"
    unfolding NLh_def t_def by (rule split_lines_tag) simp
  also have "split_lines (''Issued At: '' @ undefined_as_empty (issuedAt m)) = ILh # it"
    unfolding ILh_def it_def by (rule split_lines_tag) simp
  finally have L: "?L = X @ (NLh # t) @ (ILh # it) @ R" .
  have "7 \<le> length A" by (simp add: A_def)
  also have "length A \<le> length X"
    unfolding X_def by (rule length_concat_split_lines)
  finally have lenX: "7 \<le> length X" .
  from parse_message_lines_Some [OF assms]
  obtain header addr ls3 stmt u v c ls9 where
    P1: "?L = header # addr # [] # ls3"
    and P2: "parse_statement ls3 =
       Some (stmt, (''URI: '' @ u) # (''Version: '' @ v) # (''Chain ID: '' @ c)
          # (''Nonce: '' @ pm_nonce p) # (''Issued At: '' @ pm_issuedAt p) # ls9)"
    and P3: "parse_resources
         (snd (parse_optional ''Request ID: ''
           (snd (parse_optional ''Not Before: ''
             (snd (parse_optional ''Expiration Time: '' ls9)))))) \<noteq> None"
    by blast
  define NLp where "NLp = ''Nonce: '' @ pm_nonce p"
  define ILp where "ILp = ''Issued At: '' @ pm_issuedAt p"
  define CLp where "CLp = ''Chain ID: '' @ c"
  from parse_statement_Some [OF P2] P1
  obtain P where P: "?L = P @ [CLp] @ NLp # ILp # ls9"
    and lenP: "length P = 6 \<or> length P = 7"
  proof (elim disjE conjE exE)
    assume "ls3 = [] # (''URI: '' @ u) # (''Version: '' @ v) # (''Chain ID: '' @ c)
          # (''Nonce: '' @ pm_nonce p) # (''Issued At: '' @ pm_issuedAt p) # ls9"
    with P1 have "?L = [header, addr, [], [], ''URI: '' @ u, ''Version: '' @ v]
        @ [CLp] @ NLp # ILp # ls9"
      by (simp add: NLp_def ILp_def CLp_def)
    then show ?thesis by (rule that) simp
  next
    fix x
    assume "ls3 = x # [] # (''URI: '' @ u) # (''Version: '' @ v) # (''Chain ID: '' @ c)
          # (''Nonce: '' @ pm_nonce p) # (''Issued At: '' @ pm_issuedAt p) # ls9"
    with P1 have "?L = [header, addr, [], x, [], ''URI: '' @ u, ''Version: '' @ v]
        @ [CLp] @ NLp # ILp # ls9"
      by (simp add: NLp_def ILp_def CLp_def)
    then show ?thesis by (rule that) simp
  qed
  have tailN: "\<And>l. l \<in> set ls9 \<Longrightarrow> strip_prefix ''Nonce: '' l = None"
    using tail_lines [OF P3] by simp
  have tailI: "\<And>l. l \<in> set ls9 \<Longrightarrow> strip_prefix ''Issued At: '' l = None"
    using tail_lines [OF P3] by simp
  have NLh_tag: "strip_prefix ''Nonce: '' NLh \<noteq> None" by (simp add: NLh_def)
  have ILh_tag: "strip_prefix ''Issued At: '' ILh \<noteq> None" by (simp add: ILh_def)
  have NLh_ILp: "NLh \<noteq> ILp" by (simp add: NLh_def ILp_def)
  have NLh_CLp: "NLh \<noteq> CLp" by (simp add: NLh_def CLp_def)
  define Y where "Y = t @ (ILh # it) @ R"
  from L P have eq: "X @ (NLh # Y) = (P @ [CLp]) @ (NLp # ILp # ls9)"
    by (simp add: Y_def)
  from eq append_eq_append_conv2 [of X "NLh # Y" "P @ [CLp]" "NLp # ILp # ls9"]
  obtain us where
    "X = (P @ [CLp]) @ us \<and> us @ (NLh # Y) = NLp # ILp # ls9
     \<or> X @ us = P @ [CLp] \<and> NLh # Y = us @ (NLp # ILp # ls9)"
    by blast
  then have good: "NLh # Y = NLp # ILp # ls9"
  proof (elim disjE conjE)
    assume a: "X = (P @ [CLp]) @ us"
      and b: "us @ (NLh # Y) = NLp # ILp # ls9"
    show ?thesis
    proof (cases us)
      case Nil
      with b show ?thesis by simp
    next
      case (Cons w us')
      with b have c1: "us' @ (NLh # Y) = ILp # ls9" by simp
      show ?thesis
      proof (cases us')
        case Nil
        with c1 NLh_ILp show ?thesis by simp
      next
        case (Cons w' us'')
        with c1 have "ls9 = us'' @ NLh # Y" by simp
        then have "NLh \<in> set ls9" by simp
        with tailN [of NLh] NLh_tag show ?thesis by simp
      qed
    qed
  next
    assume a: "X @ us = P @ [CLp]"
      and b: "NLh # Y = us @ (NLp # ILp # ls9)"
    show ?thesis
    proof (cases us rule: rev_cases)
      case Nil
      with b show ?thesis by simp
    next
      case (snoc us' w)
      with a have w: "w = CLp" and x: "X @ us' = P" by simp_all
      from x have "length X + length us' = length P" by (metis length_append)
      with lenX lenP have "length us' = 0" by arith
      then have "us' = []" by simp
      with snoc b w NLh_CLp show ?thesis by simp
    qed
  qed
  then have h: "NLh = NLp" and r: "t @ (ILh # it) @ R = ILp # ls9"
    by (simp_all add: Y_def)
  have "t = []"
  proof (cases t)
    case Nil
    then show ?thesis .
  next
    case (Cons w t')
    with r have "ls9 = t' @ (ILh # it) @ R" by simp
    then have "ILh \<in> set ls9" by simp
    with tailI [of ILh] ILh_tag show ?thesis by simp
  qed
  moreover from h have "hd (split_lines (nonce m)) = pm_nonce p"
    by (simp add: NLh_def NLp_def)
  ultimately have "split_lines (nonce m) = [pm_nonce p]"
    unfolding t_def by (cases "split_lines (nonce m)") simp_all
  then show ?thesis by (rule split_lines_single)
qed


section \<open>Short-circuit after a failing stage\<close>

text \<open>
  C1 (the code does not do this). The claim: once a stage fails, no later stage is
  evaluated, and neither the signature recovery nor the contract-wallet adapter call is
  performed. The executor calls \<open>fail\<close> and goes on. With a domain override that
  differs from the message's domain and a signature of another account, the events of
  the call are: the failure of the domain check, then the signature recovery, then the
  contract-wallet adapter call, then a second call of \<open>fail\<close>; the promise keeps the
  first failure.
\<close>

theorem verify_runs_later_stages_after_failure:
  "trace (verify example_env example_message
      (example_params\<lparr>p_signature := ''0xother'', p_domain := Some ''other.com''\<rparr>)
      example_opts) =
     [FailCalled (failure (SiweError DOMAIN_MISMATCH (Some ''other.com'') (Some ''example.com''))),
      VerifyMessageCalled (EIP4361Message example_env example_message) ''0xother'',
      CheckContractWalletSignatureCalled ''0xother'',
      FailCalled (failure (SiweError INVALID_SIGNATURE (Some ''0xDeF'')
        (Some ''Resolved address to be 0xAbC'')))]
   \<and> settled (verify example_env example_message
      (example_params\<lparr>p_signature := ''0xother'', p_domain := Some ''other.com''\<rparr>)
      example_opts) =
     Some (RejectedWith
       (failure (SiweError DOMAIN_MISMATCH (Some ''other.com'') (Some ''example.com''))))"
  by code_simp

text \<open>In every call the signature recovery is performed, whatever failed before.\<close>

lemma verify_always_recovers:
  "VerifyMessageCalled (EIP4361Message env this0) (p_signature params)
     \<in> set (trace (verify env this0 params opts))"
  by (simp add: trace_verify)

lemma verify_always_calls_contract_wallet:
  "recovered env this0 params \<noteq> Some (address this0) \<Longrightarrow>
   CheckContractWalletSignatureCalled (p_signature params)
     \<in> set (trace (verify env this0 params opts))"
  by (simp add: trace_verify)

section \<open>Which failure is reported\<close>

text \<open>
  C2 as stated fails: a scheme override that mismatches is checked before the domain,
  so its failure is the one reported. Here the message is expired at the check time
  and the domain override differs from the message's domain, and \<open>verify\<close> rejects with
  the scheme mismatch.
\<close>

theorem scheme_mismatch_reported_before_domain_mismatch:
  "time_ge
     (checkTime example_env
        (example_params\<lparr>p_scheme := Some ''http'', p_domain := Some ''other.com'',
           p_time := Some ''2024-01-03T00:00:00.000Z''\<rparr>))
     (parseDate example_env (undefined_as_empty (expirationTime example_message)))
   \<and> Some ''other.com'' \<noteq> Some (domain example_message)
   \<and> settled (verify example_env example_message
        (example_params\<lparr>p_scheme := Some ''http'', p_domain := Some ''other.com'',
           p_time := Some ''2024-01-03T00:00:00.000Z''\<rparr>)
        example_opts) =
     Some (RejectedWith
       (failure (SiweError SCHEME_MISMATCH (Some ''http'') (Some ''https''))))"
  by code_simp

text \<open>
  Nor is an empty string as domain override compared with the message's domain: the
  expiry failure is then the one reported.
\<close>

lemma empty_domain_override_is_not_checked:
  "settled (verify example_env example_message
        (example_params\<lparr>p_domain := Some [],
           p_time := Some ''2024-01-03T00:00:00.000Z''\<rparr>)
        example_opts) =
     Some (RejectedWith
       (failure (SiweError EXPIRED_MESSAGE
          (Some ''2024-01-03T00:00:00.000Z < 2024-01-02T00:00:00.000Z'')
          (Some ''2024-01-03T00:00:00.000Z >= 2024-01-02T00:00:00.000Z''))))"
  by code_simp

lemma settled_verify_binding:
  assumes "checkInvalidKeys (params_keys params) VerifyParamsKeys = []"
    and "checkInvalidKeys (opts_keys opts) VerifyOptsKeys = []"
    and "\<not> (truthy (p_scheme params) \<and> p_scheme params \<noteq> scheme this0)"
  shows "settled (check_scheme params opts (check_opts_keys opts (check_params_keys params opts
            \<lparr>self = this0, settled = None, trace = []\<rparr>))) = None"
  using assms by (simp add: pending_checks)

text \<open>
  C2, amended: when the keys of the parameters and of the options are recognized, the
  scheme override is absent, empty or equal to the message's scheme, and the domain
  override is a non-empty string that differs from the message's domain, the outcome of
  \<open>verify\<close> carries the domain mismatch, delivered by \<open>fail\<close>. For a message expired at
  the check time the expiry check still calls \<open>fail\<close> afterwards, but the promise is
  settled already and the outcome is not the expiry failure.
\<close>

theorem domain_mismatch_reported_before_expiry:
  assumes "checkInvalidKeys (params_keys params) VerifyParamsKeys = []"
    and "checkInvalidKeys (opts_keys opts) VerifyOptsKeys = []"
    and "\<not> (truthy (p_scheme params) \<and> p_scheme params \<noteq> scheme this0)"
    and "truthy (p_domain params)"
    and "p_domain params \<noteq> Some (domain this0)"
    and "truthy (expirationTime this0)"
    and "time_ge (checkTime env params)
           (parseDate env (undefined_as_empty (expirationTime this0)))"
  shows "settled (verify env this0 params opts) =
           Some (delivered opts
             (failure (SiweError DOMAIN_MISMATCH (p_domain params) (Some (domain this0)))))
         \<and> (\<forall>x y. settled (verify env this0 params opts) \<noteq>
               Some (delivered opts (failure (SiweError EXPIRED_MESSAGE x y))))
         \<and> FailCalled (failure (SiweError EXPIRED_MESSAGE
              (Some (iso env (checkTime env params) @ '' < ''
                 @ iso env (parseDate env (undefined_as_empty (expirationTime this0)))))
              (Some (iso env (checkTime env params) @ '' >= ''
                 @ iso env (parseDate env (undefined_as_empty (expirationTime this0)))))))
            \<in> set (trace (verify env this0 params opts))"
proof -
  let ?st3 = "check_scheme params opts (check_opts_keys opts (check_params_keys params opts
                \<lparr>self = this0, settled = None, trace = []\<rparr>))"
  let ?r = "failure (SiweError DOMAIN_MISMATCH (p_domain params) (Some (domain this0)))"
  have "settled ?st3 = None"
    using assms(1-3) by (rule settled_verify_binding)
  then have 4: "settled (check_domain params opts ?st3) = Some (delivered opts ?r)"
    using assms(4,5) by (simp add: check_domain_def)
  have "settled (fst (checks_stage env this0 params opts)) = Some (delivered opts ?r)"
    unfolding checks_stage_def Let_def
    by (simp add: kept_serialize kept_checks 4)
  then have out: "settled (verify env this0 params opts) = Some (delivered opts ?r)"
    by (simp add: kept_verify)
  have ev: "FailCalled (failure (SiweError EXPIRED_MESSAGE
              (Some (iso env (checkTime env params) @ '' < ''
                 @ iso env (parseDate env (undefined_as_empty (expirationTime this0)))))
              (Some (iso env (checkTime env params) @ '' >= ''
                 @ iso env (parseDate env (undefined_as_empty (expirationTime this0)))))))
            \<in> set (trace (verify env this0 params opts))"
    using assms(6,7) by (simp add: trace_verify trace_checks_stage)
  from out ev show ?thesis
    by (simp add: delivered_def failure_def)
qed

theorem domain_mismatch_reported_before_expiry_witness:
  "settled (verify example_env example_message
      (example_params\<lparr>p_domain := Some ''other.com'',
         p_time := Some ''2024-01-03T00:00:00.000Z''\<rparr>)
      example_opts) =
     Some (RejectedWith
       (failure (SiweError DOMAIN_MISMATCH (Some ''other.com'') (Some ''example.com''))))"
proof -
  let ?p = "example_params\<lparr>p_domain := Some ''other.com'',
         p_time := Some ''2024-01-03T00:00:00.000Z''\<rparr>"
  have 1: "checkInvalidKeys (params_keys ?p) VerifyParamsKeys = []" by code_simp
  have 2: "checkInvalidKeys (opts_keys example_opts) VerifyOptsKeys = []" by code_simp
  have 3: "\<not> (truthy (p_scheme ?p) \<and> p_scheme ?p \<noteq> scheme example_message)" by code_simp
  have 4: "truthy (p_domain ?p)" by code_simp
  have 5: "p_domain ?p \<noteq> Some (domain example_message)" by code_simp
  have 6: "truthy (expirationTime example_message)" by code_simp
  have 7: "time_ge (checkTime example_env ?p)
      (parseDate example_env (undefined_as_empty (expirationTime example_message)))"
    by code_simp
  from domain_mismatch_reported_before_expiry [OF 1 2 3 4 5 6 7]
  show ?thesis
    by (simp add: delivered_def example_opts_def example_message_def)
qed


section \<open>Direct match\<close>

text \<open>
  C3 as stated fails: a signature that recovers the message's address does not make
  \<open>verify\<close> succeed when an earlier check has failed. Here the message is expired at
  the check time and the signature recovers \<open>0xAbC\<close>, the message's address; the call
  rejects with the expiry failure.
\<close>

theorem direct_match_of_expired_message_is_rejected:
  "recovered example_env example_message
      (example_params\<lparr>p_time := Some ''2024-01-03T00:00:00.000Z''\<rparr>)
     = Some (address example_message)
   \<and> settled (verify example_env example_message
        (example_params\<lparr>p_time := Some ''2024-01-03T00:00:00.000Z''\<rparr>) example_opts) =
     Some (RejectedWith
       (failure (SiweError EXPIRED_MESSAGE
          (Some ''2024-01-03T00:00:00.000Z < 2024-01-02T00:00:00.000Z'')
          (Some ''2024-01-03T00:00:00.000Z >= 2024-01-02T00:00:00.000Z''))))"
  by code_simp

text \<open>
  C3, amended: when the address recovered from the serialized message and the signature
  is string-equal to the message's address, the contract-wallet adapter and the fallback
  are not called, whatever happened before; and when moreover no earlier stage has
  failed, \<open>verify\<close> resolves with \<open>{success: true, data: this}\<close>, \<open>this\<close> being the
  message as the serializer left it.
\<close>

theorem direct_match_succeeds_without_contract_wallet:
  assumes "recovered env this0 params = Some (address this0)"
  shows "CheckContractWalletSignatureCalled signature
           \<notin> set (trace (verify env this0 params opts))
         \<and> VerificationFallbackCalled \<notin> set (trace (verify env this0 params opts))
         \<and> (no_stage_fails env this0 params opts \<longrightarrow>
              settled (verify env this0 params opts) =
                Some (Resolved \<lparr>success = True, data = This, error = None\<rparr>)
              \<and> self (verify env this0 params opts) = message_after env this0)"
proof -
  have "list_all is_fail_call (trace (fst (checks_stage env this0 params opts)))"
    by (rule fails_only_checks_stage)
  then have "\<forall>e \<in> set (trace (fst (checks_stage env this0 params opts))). is_fail_call e"
    by (simp add: list_all_iff)
  then have
    "CheckContractWalletSignatureCalled signature
       \<notin> set (trace (fst (checks_stage env this0 params opts)))"
    "VerificationFallbackCalled \<notin> set (trace (fst (checks_stage env this0 params opts)))"
    by auto
  then show ?thesis
    using assms by (simp add: trace_verify settled_verify_pending self_verify)
qed

text \<open>A message whose nonce and issue time are set is left as it is by the serializer.\<close>

lemma message_after_complete:
  "nonce this0 \<noteq> [] \<Longrightarrow> truthy (issuedAt this0) \<Longrightarrow> message_after env this0 = this0"
  by (cases "issuedAt this0")
     (simp_all add: message_after_def prepareMessage_def toMessage_def truthy_def
        undefined_as_empty_def Let_def)

theorem direct_match_succeeds_without_contract_wallet_witness:
  "recovered example_env example_message example_params = Some (address example_message)
   \<and> no_stage_fails example_env example_message example_params example_opts
   \<and> CheckContractWalletSignatureCalled ''0xgood''
        \<notin> set (trace (verify example_env example_message example_params example_opts))
   \<and> settled (verify example_env example_message example_params example_opts) =
        Some (Resolved \<lparr>success = True, data = This, error = None\<rparr>)"
proof -
  have 1: "recovered example_env example_message example_params
             = Some (address example_message)"
    by code_simp
  have 2: "no_stage_fails example_env example_message example_params example_opts"
    by code_simp
  from direct_match_succeeds_without_contract_wallet [OF 1, of "''0xgood''" example_opts] 1 2
  show ?thesis by simp
qed

section \<open>Contract-wallet proof and fallback\<close>

text \<open>
  C4 as stated fails: the response of a fallback is not the result of \<open>verify\<close> when an
  earlier check has failed. Here the domain override mismatches, the signature recovers
  another address, the contract-wallet adapter answers "not valid" and the fallback
  resolves with a success; the call rejects with the domain mismatch.
\<close>

theorem fallback_success_after_domain_mismatch_is_rejected:
  "recovered example_env example_message
      (example_params\<lparr>p_signature := ''0xother'', p_domain := Some ''other.com''\<rparr>)
     \<noteq> Some (address example_message)
   \<and> fallbackResponse
        (example_params\<lparr>p_signature := ''0xother'', p_domain := Some ''other.com''\<rparr>)
        (example_opts\<lparr>verificationFallback := Some accepting_fallback\<rparr>)
        example_message
        (contract_wallet_response example_env example_message
          (example_params\<lparr>p_signature := ''0xother'', p_domain := Some ''other.com''\<rparr>)
          (example_opts\<lparr>verificationFallback := Some accepting_fallback\<rparr>))
     = Some success_response
   \<and> settled (verify example_env example_message
        (example_params\<lparr>p_signature := ''0xother'', p_domain := Some ''other.com''\<rparr>)
        (example_opts\<lparr>verificationFallback := Some accepting_fallback\<rparr>)) =
     Some (RejectedWith
       (failure (SiweError DOMAIN_MISMATCH (Some ''other.com'') (Some ''example.com''))))"
  by code_simp

text \<open>
  C4, amended: when no earlier stage has failed and the recovered address does not match
  the message's address, then (1) if a fallback is supplied and its promise resolves or
  rejects with a response, \<open>verify\<close> resolves with that response when it reports success
  and fails with it (through \<open>fail\<close>) when it does not, whatever the contract-wallet
  proof gave; (2) if no fallback is supplied, the same holds of the response of the
  contract-wallet proof.
\<close>

theorem fallback_response_is_terminal:
  assumes "no_stage_fails env this0 params opts"
    and "recovered env this0 params \<noteq> Some (address this0)"
  shows "(verificationFallback opts = Some f \<and>
            (f params (VerifyOptsFields.truncate opts) (message_after env this0)
                (contract_wallet_response env this0 params opts) = FbResolved (Some fb)
             \<or> f params (VerifyOptsFields.truncate opts) (message_after env this0)
                (contract_wallet_response env this0 params opts) = FbRejected (Some fb))
          \<longrightarrow> settled (verify env this0 params opts) =
                Some (if success fb then Resolved fb else delivered opts fb))
         \<and> (verificationFallback opts = None
          \<longrightarrow> settled (verify env this0 params opts) =
                Some (if success (contract_wallet_response env this0 params opts)
                      then Resolved (contract_wallet_response env this0 params opts)
                      else delivered opts (contract_wallet_response env this0 params opts)))"
  using assms by (auto simp add: settled_verify_pending fallbackResponse_def)

theorem fallback_response_is_terminal_witness:
  "no_stage_fails example_env example_message
      (example_params\<lparr>p_signature := ''0xother''\<rparr>)
      (example_opts\<lparr>verificationFallback := Some accepting_fallback\<rparr>)
   \<and> \<not> success (contract_wallet_response example_env example_message
      (example_params\<lparr>p_signature := ''0xother''\<rparr>)
      (example_opts\<lparr>verificationFallback := Some accepting_fallback\<rparr>))
   \<and> settled (verify example_env example_message
        (example_params\<lparr>p_signature := ''0xother''\<rparr>)
        (example_opts\<lparr>verificationFallback := Some accepting_fallback\<rparr>)) =
     Some (Resolved success_response)
   \<and> settled (verify example_env example_message
        (example_params\<lparr>p_signature := ''0xother''\<rparr>) example_opts) =
     Some (RejectedWith (failure (SiweError INVALID_SIGNATURE (Some ''0xDeF'')
        (Some ''Resolved address to be 0xAbC''))))"
proof -
  let ?p = "example_params\<lparr>p_signature := ''0xother''\<rparr>"
  let ?o = "example_opts\<lparr>verificationFallback := Some accepting_fallback\<rparr>"
  have 1: "no_stage_fails example_env example_message ?p ?o" by code_simp
  have 2: "recovered example_env example_message ?p \<noteq> Some (address example_message)"
    by code_simp
  have 3: "no_stage_fails example_env example_message ?p example_opts" by code_simp
  have 4: "\<not> success (contract_wallet_response example_env example_message ?p ?o)"
    by code_simp
  have 5: "verificationFallback example_opts = None" by code_simp
  have 6: "contract_wallet_response example_env example_message ?p example_opts =
      failure (SiweError INVALID_SIGNATURE (Some ''0xDeF'')
        (Some ''Resolved address to be 0xAbC''))"
    by code_simp
  have 7: "suppressExceptions example_opts \<noteq> Some True" by code_simp
  from fallback_response_is_terminal [OF 1 2, of accepting_fallback success_response]
  have a: "settled (verify example_env example_message ?p ?o) = Some (Resolved success_response)"
    by (simp add: accepting_fallback_def success_response_def)
  from fallback_response_is_terminal [OF 3 2] 5 6 7
  have b: "settled (verify example_env example_message ?p example_opts) =
     Some (RejectedWith (failure (SiweError INVALID_SIGNATURE (Some ''0xDeF'')
        (Some ''Resolved address to be 0xAbC''))))"
    by (simp add: delivered_def failure_def)
  from 1 4 a b show ?thesis by simp
qed

section \<open>Temporal boundaries\<close>

text \<open>
  C5 as stated fails: at the boundary instant the call fails with the expiry failure
  only if no earlier check has failed. Here the check time equals the expiration time
  and the domain override mismatches; the call rejects with the domain mismatch.
\<close>

theorem boundary_expiry_after_domain_mismatch_is_not_reported:
  "expirationTime example_message = Some ''2024-01-02T00:00:00.000Z''
   \<and> checkTime example_env
        (example_params\<lparr>p_domain := Some ''other.com'',
           p_time := Some ''2024-01-02T00:00:00.000Z''\<rparr>)
     = parseDate example_env ''2024-01-02T00:00:00.000Z''
   \<and> settled (verify example_env example_message
        (example_params\<lparr>p_domain := Some ''other.com'',
           p_time := Some ''2024-01-02T00:00:00.000Z''\<rparr>) example_opts) =
     Some (RejectedWith
       (failure (SiweError DOMAIN_MISMATCH (Some ''other.com'') (Some ''example.com''))))"
  by code_simp

text \<open>
  C5, amended. (1) For a message whose expiration time is set, non-empty and a valid
  date, a call whose check time is that same instant, and in which no check before the
  expiry check has failed (keys recognized, no scheme, domain or nonce mismatch), fails
  with the expiry failure: the upper bound is exclusive. (2) For a message whose
  \<open>notBefore\<close> is set, a call whose check time is that same instant does not fail the
  not-before check: none of the checks of the call reports a not-yet-valid failure, the
  lower bound is inclusive.
\<close>

theorem temporal_boundaries:
  "(binding_checks_pass this0 params opts
      \<and> expirationTime this0 = Some e \<and> e \<noteq> [] \<and> parseDate env e = Some t
      \<and> checkTime env params = Some t
    \<longrightarrow> settled (verify env this0 params opts) =
          Some (delivered opts (failure (SiweError EXPIRED_MESSAGE
            (Some (toISOString env t @ '' < '' @ toISOString env t))
            (Some (toISOString env t @ '' >= '' @ toISOString env t))))))
   \<and> (notBefore this0 = Some b \<and> checkTime env params = parseDate env b
    \<longrightarrow> FailCalled (failure (SiweError NOT_YET_VALID_MESSAGE x y))
          \<notin> set (trace (fst (checks_stage env this0 params opts))))"
proof (intro conjI impI)
  assume a: "binding_checks_pass this0 params opts
      \<and> expirationTime this0 = Some e \<and> e \<noteq> [] \<and> parseDate env e = Some t
      \<and> checkTime env params = Some t"
  let ?st5 = "check_nonce params opts (check_domain params opts (check_scheme params opts
     (check_opts_keys opts (check_params_keys params opts
        \<lparr>self = this0, settled = None, trace = []\<rparr>))))"
  let ?r = "failure (SiweError EXPIRED_MESSAGE
            (Some (toISOString env t @ '' < '' @ toISOString env t))
            (Some (toISOString env t @ '' >= '' @ toISOString env t)))"
  from a have "settled ?st5 = None"
    by (simp add: pending_checks binding_checks_pass_def)
  with a have 6: "settled (check_expiration env params opts ?st5) = Some (delivered opts ?r)"
    by (simp add: check_expiration_def truthy_def undefined_as_empty_def time_ge_def iso_def)
  have "settled (fst (checks_stage env this0 params opts)) = Some (delivered opts ?r)"
    unfolding checks_stage_def Let_def
    by (simp add: kept_serialize kept_checks 6)
  then show "settled (verify env this0 params opts) = Some (delivered opts ?r)"
    by (simp add: kept_verify)
next
  assume b: "notBefore this0 = Some b \<and> checkTime env params = parseDate env b"
  then have "\<not> time_lt (checkTime env params)
     (parseDate env (undefined_as_empty (notBefore this0)))"
    by (simp add: time_lt_def undefined_as_empty_def split: option.splits)
  then show "FailCalled (failure (SiweError NOT_YET_VALID_MESSAGE x y))
          \<notin> set (trace (fst (checks_stage env this0 params opts)))"
    by (auto simp add: trace_checks_stage failure_def dest: prepareMessage_error prepareMessage_error [OF sym]
        split: sum.splits if_splits)
qed


theorem temporal_boundaries_witness:
  "settled (verify example_env example_message
      (example_params\<lparr>p_time := Some ''2024-01-02T00:00:00.000Z''\<rparr>) example_opts) =
     Some (RejectedWith (failure (SiweError EXPIRED_MESSAGE
        (Some ''2024-01-02T00:00:00.000Z < 2024-01-02T00:00:00.000Z'')
        (Some ''2024-01-02T00:00:00.000Z >= 2024-01-02T00:00:00.000Z''))))
   \<and> FailCalled (failure (SiweError NOT_YET_VALID_MESSAGE
        (Some ''2024-01-01T00:00:00.000Z >= 2024-01-01T00:00:00.000Z'')
        (Some ''2024-01-01T00:00:00.000Z < 2024-01-01T00:00:00.000Z'')))
        \<notin> set (trace (fst (checks_stage example_env example_message
             (example_params\<lparr>p_time := Some ''2024-01-01T00:00:00.000Z''\<rparr>) example_opts)))"
proof -
  let ?p = "example_params\<lparr>p_time := Some ''2024-01-02T00:00:00.000Z''\<rparr>"
  let ?q = "example_params\<lparr>p_time := Some ''2024-01-01T00:00:00.000Z''\<rparr>"
  let ?t = "1704153600000 :: int"
  have 1: "binding_checks_pass example_message ?p example_opts" by code_simp
  have 2: "expirationTime example_message = Some ''2024-01-02T00:00:00.000Z''" by code_simp
  have 3: "parseDate example_env ''2024-01-02T00:00:00.000Z'' = Some ?t" by code_simp
  have 4: "checkTime example_env ?p = Some ?t" by code_simp
  have 5: "notBefore example_message = Some ''2024-01-01T00:00:00.000Z''" by code_simp
  have 6: "checkTime example_env ?q = parseDate example_env ''2024-01-01T00:00:00.000Z''"
    by code_simp
  have 7: "toISOString example_env ?t = ''2024-01-02T00:00:00.000Z''" by code_simp
  have 8: "suppressExceptions example_opts \<noteq> Some True" by code_simp
  from temporal_boundaries
    [of example_message ?p example_opts "''2024-01-02T00:00:00.000Z''" example_env ?t]
    1 2 3 4 7 8
  have a: "settled (verify example_env example_message ?p example_opts) =
     Some (RejectedWith (failure (SiweError EXPIRED_MESSAGE
        (Some ''2024-01-02T00:00:00.000Z < 2024-01-02T00:00:00.000Z'')
        (Some ''2024-01-02T00:00:00.000Z >= 2024-01-02T00:00:00.000Z''))))"
    by (simp add: delivered_def)
  from temporal_boundaries
    [of example_message ?q example_opts _ example_env _ "''2024-01-01T00:00:00.000Z''"
       "Some ''2024-01-01T00:00:00.000Z >= 2024-01-01T00:00:00.000Z''"
       "Some ''2024-01-01T00:00:00.000Z < 2024-01-01T00:00:00.000Z''"]
    5 6
  have b: "FailCalled (failure (SiweError NOT_YET_VALID_MESSAGE
        (Some ''2024-01-01T00:00:00.000Z >= 2024-01-01T00:00:00.000Z'')
        (Some ''2024-01-01T00:00:00.000Z < 2024-01-01T00:00:00.000Z'')))
        \<notin> set (trace (fst (checks_stage example_env example_message ?q example_opts)))"
    by simp
  from a b show ?thesis by simp
qed

section \<open>Delivery of a failure\<close>

text \<open>
  Within one call, the option chooses the channel and not the failure: the call fails
  with the response \<open>r\<close> when the first call that settles its promise is \<open>fail(r)\<close>;
  then \<open>r\<close> reports no success, and the call resolves with \<open>r\<close> when
  \<open>suppressExceptions\<close> is true and rejects with \<open>r\<close> when it is false or absent. No
  call rejects when \<open>suppressExceptions\<close> is true.
\<close>

lemma failure_delivery_in_one_call:
  "(first_settling (trace (verify env this0 params opts)) = Some (FailCalled r)
     \<longrightarrow> \<not> success r
       \<and> (suppressExceptions opts = Some True
            \<longrightarrow> settled (verify env this0 params opts) = Some (Resolved r))
       \<and> (suppressExceptions opts = Some False \<or> suppressExceptions opts = None
            \<longrightarrow> settled (verify env this0 params opts) = Some (RejectedWith r)))
   \<and> (settled (verify env this0 params opts) = Some (RejectedWith r)
     \<longrightarrow> suppressExceptions opts \<noteq> Some True
       \<and> first_settling (trace (verify env this0 params opts)) = Some (FailCalled r))"
proof (intro conjI impI)
  assume a: "first_settling (trace (verify env this0 params opts)) = Some (FailCalled r)"
  then have "FailCalled r \<in> set (trace (verify env this0 params opts))"
    by (rule first_settling_mem)
  then show "\<not> success r" by (rule fail_calls_verify)
  from a have s: "settled (verify env this0 params opts) = Some (delivered opts r)"
    by (simp add: settlement_verify settlement_of_def)
  { assume "suppressExceptions opts = Some True"
    with s show "settled (verify env this0 params opts) = Some (Resolved r)"
      by (simp add: delivered_def) }
  { assume "suppressExceptions opts = Some False \<or> suppressExceptions opts = None"
    with s show "settled (verify env this0 params opts) = Some (RejectedWith r)"
      by (auto simp add: delivered_def) }
next
  assume b: "settled (verify env this0 params opts) = Some (RejectedWith r)"
  then have c: "settlement_of opts (trace (verify env this0 params opts))
      = Some (RejectedWith r)"
    by (simp add: settlement_verify)
  from c show "suppressExceptions opts \<noteq> Some True"
    by (auto simp add: settlement_of_def delivered_def split: option.splits event.splits)
  from c show "first_settling (trace (verify env this0 params opts)) = Some (FailCalled r)"
    by (auto simp add: settlement_of_def delivered_def
        split: option.splits event.splits if_splits)
qed

text \<open>The option \<open>suppressExceptions\<close> is a recognized key and no check reads it.\<close>

lemma invalid_opts_keys_flag:
  "checkInvalidKeys (opts_keys (opts\<lparr>suppressExceptions := a\<rparr>)) VerifyOptsKeys =
   checkInvalidKeys (opts_keys opts) VerifyOptsKeys"
  by (simp add: checkInvalidKeys_def opts_keys_def key_if_def VerifyOptsKeys_def)

lemma no_stage_fails_flag:
  "no_stage_fails env this0 params (opts\<lparr>suppressExceptions := a\<rparr>) =
   no_stage_fails env this0 params opts"
  by (simp add: no_stage_fails_def binding_checks_pass_def invalid_opts_keys_flag)

lemma trace_checks_stage_flag:
  "trace (fst (checks_stage env this0 params (opts\<lparr>suppressExceptions := a\<rparr>))) =
   trace (fst (checks_stage env this0 params opts))"
  by (simp only: trace_checks_stage invalid_opts_keys_flag)

lemma contract_wallet_response_flag:
  "contract_wallet_response env this0 params (opts\<lparr>suppressExceptions := a\<rparr>) =
   contract_wallet_response env this0 params opts"
  by (simp add: contract_wallet_response_def)

text \<open>
  C9 compares two calls that differ in the option only, and as stated it fails: the
  options, \<open>suppressExceptions\<close> among them, are handed to the verification fallback,
  whose response is the failure reported. With a fallback that reads the option, the
  call that resolves and the call that rejects carry different errors.
\<close>

theorem fallback_reading_the_option_changes_the_error:
  "settled (verify example_env checksummed_message
      (example_params\<lparr>p_signature := ''0xother''\<rparr>)
      (example_opts\<lparr>verificationFallback := Some option_reading_fallback,
         suppressExceptions := Some True\<rparr>)) =
     Some (Resolved (failure (Error ''refused quietly'')))
   \<and> settled (verify example_env checksummed_message
      (example_params\<lparr>p_signature := ''0xother''\<rparr>)
      (example_opts\<lparr>verificationFallback := Some option_reading_fallback,
         suppressExceptions := Some False\<rparr>)) =
     Some (RejectedWith (failure (Error ''refused loudly'')))
   \<and> settled (verify example_env checksummed_message
      (example_params\<lparr>p_signature := ''0xother''\<rparr>)
      (example_opts\<lparr>verificationFallback := Some option_reading_fallback,
         suppressExceptions := None\<rparr>)) =
     Some (RejectedWith (failure (Error ''refused loudly'')))"
proof -
  let ?p = "example_params\<lparr>p_signature := ''0xother''\<rparr>"
  let ?o = "example_opts\<lparr>verificationFallback := Some option_reading_fallback\<rparr>"
  have "no_stage_fails example_env checksummed_message ?p ?o" by code_simp
  then have 1: "no_stage_fails example_env checksummed_message ?p
      (?o\<lparr>suppressExceptions := a\<rparr>)" for a
    by (simp only: no_stage_fails_flag)
  have 2: "recovered example_env checksummed_message ?p \<noteq> Some (address checksummed_message)"
    by code_simp
  have 3: "fallbackResponse ?p (?o\<lparr>suppressExceptions := a\<rparr>) m r =
      Some (failure (Error (if a = Some True then ''refused quietly'' else ''refused loudly'')))"
    for a m r
    by (simp add: fallbackResponse_def option_reading_fallback_def example_opts_def
        VerifyOptsFields.truncate_def)
  have 4: "settled (verify example_env checksummed_message ?p (?o\<lparr>suppressExceptions := a\<rparr>)) =
      Some (delivered (?o\<lparr>suppressExceptions := a\<rparr>)
        (failure (Error (if a = Some True then ''refused quietly'' else ''refused loudly''))))"
    for a
    unfolding settled_verify_pending [OF 1] 3 using 2 by (simp add: failure_def)
  from 4 [of "Some True"] 4 [of "Some False"] 4 [of None] show ?thesis
    by (simp add: delivered_def)
qed

text \<open>Events that are all failures settle the promise, if at all, with the first of them.\<close>

lemma first_settling_failures:
  assumes "list_all is_fail_call es" and "es \<noteq> []"
  shows "\<exists>r. \<not> success r \<and> first_settling es = Some (FailCalled r)"
proof (cases es)
  case Nil
  with assms show ?thesis by simp
next
  case (Cons e es')
  with assms(1) obtain r where "e = FailCalled r" "\<not> success r"
    by (cases e) simp_all
  with Cons show ?thesis by auto
qed

text \<open>
  When a check before the signature recovery has failed, the call is settled by the
  first failure among these checks, which is the same whatever the option.
\<close>

lemma settled_verify_failed_stage:
  assumes "\<not> no_stage_fails env this0 params opts"
  shows "\<exists>r. \<not> success r \<and>
    (\<forall>a. settled (verify env this0 params (opts\<lparr>suppressExceptions := a\<rparr>)) =
       Some (delivered (opts\<lparr>suppressExceptions := a\<rparr>) r))"
proof -
  let ?T = "trace (fst (checks_stage env this0 params opts))"
  have s: "settled (verify env this0 params (opts\<lparr>suppressExceptions := a\<rparr>)) =
      settlement_of (opts\<lparr>suppressExceptions := a\<rparr>) ?T" for a
  proof -
    from assms have
      "settled (fst (checks_stage env this0 params (opts\<lparr>suppressExceptions := a\<rparr>))) \<noteq> None"
      by (simp add: pending_checks_stage no_stage_fails_flag)
    then have "settled (verify env this0 params (opts\<lparr>suppressExceptions := a\<rparr>)) =
        settled (fst (checks_stage env this0 params (opts\<lparr>suppressExceptions := a\<rparr>)))"
      by (rule kept_verify)
    then show ?thesis
      by (simp add: settlement_checks_stage trace_checks_stage_flag)
  qed
  from assms have "settled (fst (checks_stage env this0 params opts)) \<noteq> None"
    by (simp add: pending_checks_stage)
  then have "settlement_of opts ?T \<noteq> None"
    by (simp add: settlement_checks_stage)
  then have "?T \<noteq> []" by auto
  with fails_only_checks_stage [of env this0 params opts]
  obtain r where r: "\<not> success r" "first_settling ?T = Some (FailCalled r)"
    using first_settling_failures by blast
  from r(2) have "settled (verify env this0 params (opts\<lparr>suppressExceptions := a\<rparr>)) =
       Some (delivered (opts\<lparr>suppressExceptions := a\<rparr>) r)" for a
    by (simp add: s settlement_of_def)
  with r(1) show ?thesis by blast
qed

text \<open>
  C9, amended. Take a call in which a check before the signature recovery fails, or
  whose verification fallback, if one is supplied, settles with the same response when
  \<open>suppressExceptions\<close> is true as when it is false or absent. Then the call with
  \<open>suppressExceptions\<close> true resolves with a response \<open>r\<close> that reports no success if and
  only if the call with \<open>suppressExceptions\<close> false or absent rejects with the same \<open>r\<close>:
  the failure delivered is the same on both channels.
\<close>

theorem same_failure_on_both_channels:
  assumes "b = Some False \<or> b = None"
    and "no_stage_fails env this0 params opts \<longrightarrow>
           same_fallback_response env this0 params opts (Some True) b"
  shows "settled (verify env this0 params (opts\<lparr>suppressExceptions := Some True\<rparr>))
           = Some (Resolved r) \<and> \<not> success r
         \<longleftrightarrow>
         settled (verify env this0 params (opts\<lparr>suppressExceptions := b\<rparr>))
           = Some (RejectedWith r)"
proof (cases "no_stage_fails env this0 params opts")
  case False
  then obtain r0 where r0: "\<not> success r0"
    "\<And>a. settled (verify env this0 params (opts\<lparr>suppressExceptions := a\<rparr>)) =
       Some (delivered (opts\<lparr>suppressExceptions := a\<rparr>) r0)"
    using settled_verify_failed_stage by blast
  from assms(1) r0 show ?thesis
    by (auto simp add: delivered_def)
next
  case True
  with assms(2) have f:
    "fallbackResponse params (opts\<lparr>suppressExceptions := Some True\<rparr>)
       (message_after env this0) (contract_wallet_response env this0 params opts) =
     fallbackResponse params (opts\<lparr>suppressExceptions := b\<rparr>)
       (message_after env this0) (contract_wallet_response env this0 params opts)"
    by (simp add: same_fallback_response_def)
  from True have 1:
    "no_stage_fails env this0 params (opts\<lparr>suppressExceptions := Some True\<rparr>)"
    "no_stage_fails env this0 params (opts\<lparr>suppressExceptions := b\<rparr>)"
    by (simp_all add: no_stage_fails_flag)
  from assms(1) show ?thesis
    unfolding settled_verify_pending [OF 1(1)] settled_verify_pending [OF 1(2)]
      contract_wallet_response_flag f
    by (auto simp add: delivered_def split: option.splits)
qed

theorem same_failure_on_both_channels_witness:
  "no_stage_fails example_env checksummed_message
      (example_params\<lparr>p_signature := ''0xother''\<rparr>)
      (example_opts\<lparr>verificationFallback := Some refusing_fallback\<rparr>)
   \<and> same_fallback_response example_env checksummed_message
      (example_params\<lparr>p_signature := ''0xother''\<rparr>)
      (example_opts\<lparr>verificationFallback := Some refusing_fallback\<rparr>) (Some True) None
   \<and> settled (verify example_env checksummed_message
      (example_params\<lparr>p_signature := ''0xother''\<rparr>)
      (example_opts\<lparr>verificationFallback := Some refusing_fallback,
         suppressExceptions := None\<rparr>)) =
     Some (RejectedWith (failure (Error ''refused'')))
   \<and> settled (verify example_env checksummed_message
      (example_params\<lparr>p_signature := ''0xother''\<rparr>)
      (example_opts\<lparr>verificationFallback := Some refusing_fallback,
         suppressExceptions := Some True\<rparr>)) =
     Some (Resolved (failure (Error ''refused'')))"
proof -
  let ?p = "example_params\<lparr>p_signature := ''0xother''\<rparr>"
  let ?o = "example_opts\<lparr>verificationFallback := Some refusing_fallback\<rparr>"
  let ?r = "failure (Error ''refused'')"
  have 1: "no_stage_fails example_env checksummed_message ?p ?o" by code_simp
  have 2: "same_fallback_response example_env checksummed_message ?p ?o (Some True) None"
    by code_simp
  have 0: "recovered example_env checksummed_message ?p \<noteq> Some (address checksummed_message)"
    by code_simp
  from 1 have n: "no_stage_fails example_env checksummed_message ?p
      (?o\<lparr>suppressExceptions := None\<rparr>)"
    by (simp only: no_stage_fails_flag)
  have 3: "settled (verify example_env checksummed_message ?p
      (?o\<lparr>suppressExceptions := None\<rparr>)) = Some (RejectedWith ?r)"
    unfolding settled_verify_pending [OF n] using 0
    by (simp add: fallbackResponse_def refusing_fallback_def failure_def delivered_def)
  from same_failure_on_both_channels
    [of None example_env checksummed_message ?p ?o ?r] 2 3
  have 4: "settled (verify example_env checksummed_message ?p
      (?o\<lparr>suppressExceptions := Some True\<rparr>)) = Some (Resolved ?r)"
    by blast
  from 1 2 3 4 show ?thesis by simp
qed


section \<open>The lines of a serialized message\<close>

text \<open>
  C6 as stated fails for a scheme that is present and empty: the header has no
  \<open>://\<close> prefix then.
\<close>

theorem empty_scheme_has_no_prefix:
  "scheme (example_message\<lparr>scheme := Some []\<rparr>) \<noteq> None
   \<and> toMessage example_env (example_message\<lparr>scheme := Some []\<rparr>) =
     Inr (example_message\<lparr>scheme := Some []\<rparr>,
       join LF
         [''example.com wants you to sign in with your Ethereum account:'',
          ''0xAbC'', [], ''Sign in'', [],
          ''URI: https://example.com/login'', ''Version: 1'', ''Chain ID: 1'',
          ''Nonce: abcdefgh'', ''Issued At: 2024-01-01T00:00:00.000Z'',
          ''Expiration Time: 2024-01-02T00:00:00.000Z'',
          ''Not Before: 2024-01-01T00:00:00.000Z''])"
  by code_simp

text \<open>
  C6, amended. Whenever the serializer returns, it returns the message with its
  defaults assigned and the lines of that message joined by newlines, with nothing
  after the last line, in this order: the header, with the \<open>scheme://\<close> prefix if and
  only if the scheme is set and not empty; the address; a blank line; the statement
  if it is set, also when it is empty; a blank line; the \<open>URI:\<close>, \<open>Version:\<close>,
  \<open>Chain ID:\<close>, \<open>Nonce:\<close> and \<open>Issued At:\<close> lines; the \<open>Expiration Time:\<close>,
  \<open>Not Before:\<close> and \<open>Request ID:\<close> lines, each if and only if the field is set and
  not empty; and, if the resources are set, \<open>Resources:\<close> and one \<open>- uri\<close> line per
  entry, in order. An empty statement and an absent one give different strings. The
  serializer returns whenever the nonce is not empty or \<open>generateNonce()\<close> returns.
\<close>

theorem serializer_line_order:
  "(toMessage env m = Inr (m', s) \<longrightarrow>
      m' = with_defaults env m
      \<and> s = join LF (message_lines m')
      \<and> join LF (message_lines (m'\<lparr>statement := Some []\<rparr>))
          \<noteq> join LF (message_lines (m'\<lparr>statement := None\<rparr>)))
   \<and> (nonce m \<noteq> [] \<or> valid_nonce (drawn env) \<longrightarrow>
        toMessage env m =
          Inr (with_defaults env m, join LF (message_lines (with_defaults env m))))"
  by (auto simp add: toMessage_result empty_statement_differs split: if_splits)

theorem serializer_line_order_witness:
  "toMessage example_env example_message =
     Inr (example_message,
       join LF
         [''https://example.com wants you to sign in with your Ethereum account:'',
          ''0xAbC'', [], ''Sign in'', [],
          ''URI: https://example.com/login'', ''Version: 1'', ''Chain ID: 1'',
          ''Nonce: abcdefgh'', ''Issued At: 2024-01-01T00:00:00.000Z'',
          ''Expiration Time: 2024-01-02T00:00:00.000Z'',
          ''Not Before: 2024-01-01T00:00:00.000Z''])"
proof -
  have 1: "nonce example_message \<noteq> []" by code_simp
  have 2: "with_defaults example_env example_message = example_message" by code_simp
  have 3: "message_lines example_message =
         [''https://example.com wants you to sign in with your Ethereum account:'',
          ''0xAbC'', [], ''Sign in'', [],
          ''URI: https://example.com/login'', ''Version: 1'', ''Chain ID: 1'',
          ''Nonce: abcdefgh'', ''Issued At: 2024-01-01T00:00:00.000Z'',
          ''Expiration Time: 2024-01-02T00:00:00.000Z'',
          ''Not Before: 2024-01-01T00:00:00.000Z'']" by code_simp
  from serializer_line_order [of example_env example_message] 1
  have "toMessage example_env example_message =
          Inr (with_defaults example_env example_message,
               join LF (message_lines (with_defaults example_env example_message)))"
    by blast
  then show ?thesis by (simp only: 2 3)
qed


section \<open>The nonce of a constructed message\<close>

text \<open>
  C10. A nonce given as the empty string is treated as a nonce left out: the
  constructor behaves the same on both, and the nonce of a message constructed from
  fields is never empty: when the given nonce is empty or left out it is the nonce
  that \<open>generateNonce()\<close> returned.
\<close>

theorem empty_nonce_is_replaced:
  "SiweMessage_of_fields env (param\<lparr>f_nonce := Some []\<rparr>)
     = SiweMessage_of_fields env (param\<lparr>f_nonce := None\<rparr>)
   \<and> (SiweMessage_of_fields env param = Inr m \<longrightarrow>
        nonce m \<noteq> []
        \<and> (f_nonce param = Some [] \<or> f_nonce param = None \<longrightarrow>
             nonce m = drawn env \<and> generateNonce (drawn env) = Inr (nonce m)))"
proof (intro conjI impI)
  show "SiweMessage_of_fields env (param\<lparr>f_nonce := Some []\<rparr>)
     = SiweMessage_of_fields env (param\<lparr>f_nonce := None\<rparr>)"
    by (simp add: SiweMessage_of_fields_def undefined_as_empty_def)
next
  assume a: "SiweMessage_of_fields env param = Inr m"
  show "nonce m \<noteq> []"
    using of_fields_nonce [OF a]
    by (auto simp add: truthy_def undefined_as_empty_def valid_nonce_def
        split: option.splits if_splits)
  assume b: "f_nonce param = Some [] \<or> f_nonce param = None"
  then have "\<not> truthy (f_nonce param)" by (auto simp add: truthy_def)
  with of_fields_nonce [OF a] show "nonce m = drawn env" by simp
  from \<open>\<not> truthy (f_nonce param)\<close> of_fields_nonce(2) [OF a]
  have "valid_nonce (drawn env)" by simp
  with \<open>nonce m = drawn env\<close> show "generateNonce (drawn env) = Inr (nonce m)"
    by (simp add: generateNonce_def valid_nonce_def)
qed

theorem empty_nonce_is_replaced_witness:
  "SiweMessage_of_fields example_env (example_fields\<lparr>f_nonce := Some []\<rparr>) =
     Inr (example_message\<lparr>nonce := ''n0nc3n0nc3'',
            resources := Some [''https://example.com/a'']\<rparr>)
   \<and> nonce (example_message\<lparr>nonce := ''n0nc3n0nc3'',
            resources := Some [''https://example.com/a'']\<rparr>) \<noteq> []"
proof -
  let ?m = "example_message\<lparr>nonce := ''n0nc3n0nc3'',
            resources := Some [''https://example.com/a'']\<rparr>"
  have 1: "SiweMessage_of_fields example_env (example_fields\<lparr>f_nonce := Some []\<rparr>) = Inr ?m"
    by code_simp
  from empty_nonce_is_replaced
    [of example_env "example_fields\<lparr>f_nonce := Some []\<rparr>" ?m] 1
  have "nonce ?m \<noteq> []" by blast
  with 1 show ?thesis by simp
qed


section \<open>Serializing and parsing back\<close>

text \<open>
  C7 as stated fails: a request ID that is the empty string is a field set like any
  other, the constructor accepts it and keeps it, but the serializer omits the line,
  and the parser returns a message without a request ID.
\<close>

theorem round_trip_loses_empty_request_id:
  "structurally_valid example_env (checksummed_fields\<lparr>f_requestId := Some []\<rparr>)
   \<and> SiweMessage_of_fields example_env (checksummed_fields\<lparr>f_requestId := Some []\<rparr>) =
     Inr (assembled example_env (checksummed_fields\<lparr>f_requestId := Some []\<rparr>))
   \<and> requestId (assembled example_env (checksummed_fields\<lparr>f_requestId := Some []\<rparr>))
     = Some []
   \<and> map_sum id requestId
       (SiweMessage_of_string
          (join LF (message_lines
             (assembled example_env (checksummed_fields\<lparr>f_requestId := Some []\<rparr>)))))
     = Inr None"
  by code_simp

text \<open>
  It fails also where the chain ID is a number from \<open>10^21\<close> on: the serializer prints
  it in the exponent form, which the parser does not read as a chain ID, so that the
  construction from these fields throws.
\<close>

lemma digits_1e21: "digits 1000000000000000000000 = ''1000000000000000000000''"
  by (simp add: digits.simps digit_char_def)

lemma chain_id_in_exponent_form_is_not_parsed:
  "structurally_valid example_env
     (checksummed_fields\<lparr>f_chainId := ChainNumber 1000000000000000000000\<rparr>)
   \<and> no_empty_optional (checksummed_fields\<lparr>f_chainId := ChainNumber 1000000000000000000000\<rparr>)
   \<and> ''Chain ID: '' @ chain_to_string (ChainNumber 1000000000000000000000)
     = ''Chain ID: 1e+21''
   \<and> parse_nat ''1e+21'' = None
   \<and> isl (SiweMessage_of_fields example_env
       (checksummed_fields\<lparr>f_chainId := ChainNumber 1000000000000000000000\<rparr>))"
proof -
  let ?f = "checksummed_fields\<lparr>f_chainId := ChainNumber 1000000000000000000000\<rparr>"
  have 1: "structurally_valid example_env ?f" by code_simp
  have 2: "no_empty_optional ?f" by code_simp
  have 3: "chain_to_string (ChainNumber 1000000000000000000000) = ''1e+21''"
    by (simp add: chain_to_string_def number_to_string_def natural_to_string_def
        exponent_form_def digits_1e21)
       (simp add: digits.simps digit_char_def)
  have 4: "parse_nat ''1e+21'' = None" by code_simp
  have "message_lines (assembled example_env ?f) =
      message_lines ((assembled example_env checksummed_fields)\<lparr>chainId := ChainString ''1e+21''\<rparr>)"
    by (simp add: message_lines_def header_line_def assembled_def 3)
       (simp add: chain_to_string_def)
  moreover have "isl (ParsedMessage (join LF (message_lines
      ((assembled example_env checksummed_fields)\<lparr>chainId := ChainString ''1e+21''\<rparr>))))"
    by code_simp
  ultimately obtain e where
    "ParsedMessage (join LF (message_lines (assembled example_env ?f))) = Inl e"
    by (auto simp add: isl_def)
  then have 5: "isl (SiweMessage_of_fields example_env ?f)"
    by (simp add: of_fields_result)
  from 1 2 3 4 5 show ?thesis by simp
qed

text \<open>
  C7, amended. Of every field set: construction succeeds only if the parser accepts the
  serialization of the message constructed. Of every structurally valid field set whose
  scheme, expiration time, not-before time and request ID are absent or not empty, and
  whose chain ID is below \<open>2^53\<close> (an integer that a number holds exactly):
  construction succeeds, serializing the constructed message leaves it as it is, and
  constructing a message from the resulting string gives a message equal to it on
  every field. The parser is the one modelled from the spec.
\<close>

theorem round_trip:
  "(SiweMessage_of_fields env f = Inr m \<longrightarrow>
      (\<exists>s p. prepareMessage env m = Inr (m, s) \<and> ParsedMessage s = Inr p))
   \<and> (structurally_valid env f \<and> no_empty_optional f \<and> safe_chain_id f \<longrightarrow>
      (\<exists>m' s. SiweMessage_of_fields env f = Inr m'
         \<and> prepareMessage env m' = Inr (m', s)
         \<and> SiweMessage_of_string s = Inr m'))"
proof (intro conjI impI)
  assume a: "SiweMessage_of_fields env f = Inr m"
  then have m: "m = assembled env f"
    by (auto simp add: of_fields_result split: chain_value.splits if_splits sum.splits)
  from a obtain p where p: "ParsedMessage (join LF (message_lines (assembled env f))) = Inr p"
    by (auto simp add: of_fields_result split: chain_value.splits if_splits sum.splits)
  from a have "truthy (f_nonce f) \<or> valid_nonce (drawn env)"
    by (auto simp add: of_fields_result split: chain_value.splits if_splits)
  then have n: "nonce (assembled env f) \<noteq> []"
    by (auto simp add: assembled_def truthy_def undefined_as_empty_def valid_nonce_def
        split: option.splits)
  then have "prepareMessage env (assembled env f) =
      Inr (assembled env f, join LF (message_lines (assembled env f)))"
    by (simp add: prepareMessage_result toMessage_result assembled_stable)
  with m p show "\<exists>s p. prepareMessage env m = Inr (m, s) \<and> ParsedMessage s = Inr p"
    by simp
next
  assume v: "structurally_valid env f \<and> no_empty_optional f \<and> safe_chain_id f"
  let ?m = "assembled env f"
  let ?s = "join LF (message_lines ?m)"
  from v have vm: "valid_message ?m" by (simp add: assembled_valid)
  then have rt: "SiweMessage_of_string ?s = Inr ?m" by (rule of_string_serialized)
  then obtain p where p: "ParsedMessage ?s = Inr p"
    by (auto simp add: SiweMessage_of_string_def split: sum.splits)
  from vm have n: "nonce ?m \<noteq> []"
    by (auto simp add: valid_message_def valid_nonce_def)
  then have ser: "prepareMessage env ?m = Inr (?m, ?s)"
    by (simp add: prepareMessage_result toMessage_result assembled_stable)
  from v have c: "case f_chainId f of ChainNumber n \<Rightarrow> True | ChainString s \<Rightarrow> parse_nat s \<noteq> None"
    by (auto simp add: structurally_valid_def split: chain_value.splits)
  from v have g: "truthy (f_nonce f) \<or> valid_nonce (drawn env)"
    by (auto simp add: structurally_valid_def split: if_splits)
  from c g p have "SiweMessage_of_fields env f = Inr ?m"
    by (auto simp add: of_fields_result split: chain_value.splits)
  with ser rt show "\<exists>m' s. SiweMessage_of_fields env f = Inr m'
         \<and> prepareMessage env m' = Inr (m', s) \<and> SiweMessage_of_string s = Inr m'"
    by blast
qed

theorem round_trip_witness:
  "structurally_valid example_env checksummed_fields \<and> no_empty_optional checksummed_fields
   \<and> safe_chain_id checksummed_fields
   \<and> SiweMessage_of_fields example_env checksummed_fields =
       Inr (assembled example_env checksummed_fields)
   \<and> SiweMessage_of_string
       (join LF (message_lines (assembled example_env checksummed_fields))) =
       Inr (assembled example_env checksummed_fields)"
proof -
  have 1: "structurally_valid example_env checksummed_fields" by code_simp
  have 2: "no_empty_optional checksummed_fields" by code_simp
  have 3: "SiweMessage_of_fields example_env checksummed_fields =
       Inr (assembled example_env checksummed_fields)" by code_simp
  have 4: "safe_chain_id checksummed_fields" by code_simp
  from round_trip [of example_env checksummed_fields "assembled example_env checksummed_fields"]
    1 2 3 4
  obtain m' s where
    "SiweMessage_of_fields example_env checksummed_fields = Inr m'"
    "prepareMessage example_env m' = Inr (m', s)"
    "SiweMessage_of_string s = Inr m'"
    by blast
  with 3 have "SiweMessage_of_string
       (join LF (message_lines (assembled example_env checksummed_fields))) =
       Inr (assembled example_env checksummed_fields)"
    by (auto simp add: prepareMessage_result toMessage_result split: if_splits)
  with 1 2 3 4 show ?thesis by simp
qed


section \<open>Invariants of a constructed message\<close>

lemma message_after_keeps:
  "nonce m \<noteq> [] \<Longrightarrow> nonce (message_after env m) = nonce m"
  "chainId (message_after env m) = chainId m"
  by (simp_all add: message_after_def prepareMessage_result toMessage_result with_defaults_def)

text \<open>
  C8. A message whose construction from fields has succeeded has a nonce that is not
  empty and consists of at least 8 alphanumeric characters; when no nonce (or an empty
  one) was given, it is the nonce that \<open>generateNonce()\<close> returned; and its chain ID is
  a number, the one that \<open>parseIntegerNumber\<close> returned when a string was given.
  Serializing and verifying the message keep both fields. The check of a given nonce
  is the parser's, which is modelled from the spec.
\<close>

theorem constructed_message_invariants:
  "SiweMessage_of_fields env f = Inr m \<longrightarrow>
     nonce m \<noteq> [] \<and> 8 \<le> length (nonce m) \<and> list_all alphanumeric (nonce m)
     \<and> (\<not> truthy (f_nonce f) \<longrightarrow> generateNonce (drawn env) = Inr (nonce m))
     \<and> (\<exists>n. chainId m = ChainNumber n
           \<and> (\<forall>s. f_chainId f = ChainString s \<longrightarrow> parseIntegerNumber s = Inr n))
     \<and> nonce (message_after env' m) = nonce m
     \<and> chainId (message_after env' m) = chainId m
     \<and> nonce (self (verify env' m params opts)) = nonce m
     \<and> chainId (self (verify env' m params opts)) = chainId m"
proof
  assume a: "SiweMessage_of_fields env f = Inr m"
  then have m: "m = assembled env f"
    by (auto simp add: of_fields_result split: chain_value.splits if_splits sum.splits)
  from a obtain p where "ParsedMessage (join LF (message_lines m)) = Inr p"
    unfolding m
    by (auto simp add: of_fields_result split: chain_value.splits if_splits sum.splits)
  then have p: "parse_message_lines (split_lines (join LF (message_lines m))) = Some p"
    by (auto simp add: ParsedMessage_def split: option.splits)
  from parse_message_lines_Some [OF p] have "valid_nonce (pm_nonce p)" by blast
  with accepted_nonce [OF p] have v: "valid_nonce (nonce m)" by simp
  then have n: "nonce m \<noteq> []" "8 \<le> length (nonce m)" "list_all alphanumeric (nonce m)"
    by (auto simp add: valid_nonce_def)
  have g: "\<not> truthy (f_nonce f) \<longrightarrow> generateNonce (drawn env) = Inr (nonce m)"
    using v unfolding m
    by (cases "truthy (f_nonce f)")
       (simp_all add: assembled_def generateNonce_def valid_nonce_def)
  have c: "\<exists>n. chainId m = ChainNumber n
           \<and> (\<forall>s. f_chainId f = ChainString s \<longrightarrow> parseIntegerNumber s = Inr n)"
    using a unfolding m
    by (auto simp add: of_fields_result assembled_def parseIntegerNumber_def
        split: chain_value.splits if_splits option.splits)
  from n g c show "nonce m \<noteq> [] \<and> 8 \<le> length (nonce m) \<and> list_all alphanumeric (nonce m)
     \<and> (\<not> truthy (f_nonce f) \<longrightarrow> generateNonce (drawn env) = Inr (nonce m))
     \<and> (\<exists>n. chainId m = ChainNumber n
           \<and> (\<forall>s. f_chainId f = ChainString s \<longrightarrow> parseIntegerNumber s = Inr n))
     \<and> nonce (message_after env' m) = nonce m
     \<and> chainId (message_after env' m) = chainId m
     \<and> nonce (self (verify env' m params opts)) = nonce m
     \<and> chainId (self (verify env' m params opts)) = chainId m"
    by (simp add: message_after_keeps self_verify)
qed

theorem constructed_message_invariants_witness:
  "SiweMessage_of_fields example_env example_fields =
     Inr (assembled example_env example_fields)
   \<and> nonce (assembled example_env example_fields) = ''n0nc3n0nc3''
   \<and> 8 \<le> length (nonce (assembled example_env example_fields))
   \<and> list_all alphanumeric (nonce (assembled example_env example_fields))
   \<and> chainId (assembled example_env example_fields) = ChainNumber 1"
proof -
  have 1: "SiweMessage_of_fields example_env example_fields =
     Inr (assembled example_env example_fields)"
    by code_simp
  have 2: "nonce (assembled example_env example_fields) = ''n0nc3n0nc3''" by code_simp
  have 3: "chainId (assembled example_env example_fields) = ChainNumber 1" by code_simp
  from constructed_message_invariants
    [of example_env example_fields "assembled example_env example_fields"] 1
  have "8 \<le> length (nonce (assembled example_env example_fields))
    \<and> list_all alphanumeric (nonce (assembled example_env example_fields))"
    by blast
  with 1 2 3 show ?thesis by simp
qed


end
